theory Spec2Isabelle
  imports
    Main
    "HOL-Library.Word"
    "HOL-Library.Multiset"
    "HOL-Library.Char_ord"
    "HOL-Library.List_Lexorder"
begin

unbundle bit_operations_syntax

section \<open>Go error values\<close>

text \<open>
  An error produced outside this package (by the operating system, umoci, the image
  source, the JSON decoder). The package only asks three things of such a value: whether
  \<^verbatim>\<open>os.IsPermission\<close> holds of it, whether \<^verbatim>\<open>os.IsNotExist\<close> holds of it, and its
  message.
\<close>

datatype ext_error = ExtError (IsPermission: bool) (IsNotExist: bool) (Error: string)

text \<open>
  The error values the package handles. \<^verbatim>\<open>errors.New\<close> and \<^verbatim>\<open>fmt.Errorf\<close> with
  \<^verbatim>\<open>%s\<close> verbs only build values that wrap nothing; a \<^verbatim>\<open>fmt.Errorf\<close> value is kept as
  its format and its arguments.
\<close>

datatype go_error =
    errors_New string
  | fmt_Errorf string "string list"
  | External ext_error

text \<open>
  \<^verbatim>\<open>errors.Is(err, target)\<close> for a target made by \<^verbatim>\<open>errors.New\<close> inside the calling
  function: no value made elsewhere is or wraps the target, and the package's own values
  wrap nothing, so the test is identity.
\<close>

definition errors_Is :: "go_error option \<Rightarrow> go_error \<Rightarrow> bool" where
  "errors_Is err target = (err = Some target)"

section \<open>File modes and the filesystem\<close>

text \<open>\<^verbatim>\<open>os.FileMode\<close> is a \<^verbatim>\<open>uint32\<close>; \<^verbatim>\<open>ModeDir = 1 << 31\<close>, \<^verbatim>\<open>ModePerm = 0777\<close>.\<close>

type_synonym FileMode = "32 word"

definition ModeDir :: FileMode where
  "ModeDir = push_bit 31 1"

definition ModePerm :: FileMode where
  "ModePerm = 0x1FF"

definition IsDir :: "FileMode \<Rightarrow> bool" where
  "IsDir m = (m AND ModeDir \<noteq> 0)"

definition Perm :: "FileMode \<Rightarrow> FileMode" where
  "Perm m = m AND ModePerm"

text \<open>The octal constant \<^verbatim>\<open>0o700\<close> of the source.\<close>

definition o700 :: FileMode where
  "o700 = 0x1C0"

record inode =
  i_mode :: FileMode
  i_content :: string

type_synonym fs = "string \<rightharpoonup> inode"

section \<open>Manifests, mapping options, bundles\<close>

record Descriptor =
  MediaType :: string
  Digest :: string
  Size :: int
  URLs :: "string list"
  d_Annotations :: "(string \<times> string) list"

record Manifest =
  SchemaVersion :: int
  Config :: Descriptor
  Layers :: "Descriptor list"
  m_Annotations :: "(string \<times> string) list"

definition zero_Descriptor :: Descriptor where
  "zero_Descriptor = \<lparr>MediaType = [], Digest = [], Size = 0, URLs = [], d_Annotations = []\<rparr>"

definition zero_Manifest :: Manifest where
  "zero_Manifest = \<lparr>SchemaVersion = 0, Config = zero_Descriptor, Layers = [], m_Annotations = []\<rparr>"

definition MediaTypeImageManifest :: string where
  "MediaTypeImageManifest = ''application/vnd.oci.image.manifest.v1+json''"

definition MediaTypeImageConfig :: string where
  "MediaTypeImageConfig = ''application/vnd.oci.image.config.v1+json''"

record LinuxIDMapping =
  ContainerID :: "32 word"
  HostID :: "32 word"
  m_Size :: "32 word"

record MapOptions =
  UIDMappings :: "LinuxIDMapping list"
  GIDMappings :: "LinuxIDMapping list"
  Rootless :: bool

definition zero_MapOptions :: MapOptions where
  "zero_MapOptions = \<lparr>UIDMappings = [], GIDMappings = [], Rootless = False\<rparr>"

record Options =
  FixPerms :: bool
  SandboxTarget :: bool

record Bundle =
  TmpDir :: string
  RootfsPath :: string
  Opts :: Options

section \<open>Calls on the outside world\<close>

datatype apex_level = apex_DebugLevel | apex_InfoLevel | apex_WarnLevel | apex_ErrorLevel

datatype engine = Engine string

datatype event =
    apexlog_SetLevel apex_level
  | sylog_Debugf string "string list"
  | sylog_Warningf string "string list"
  | Call_OpenLayout string
  | Call_NewImageSource
  | Call_GetManifest
  | Call_Unmarshal string
  | Call_RemoveAll string
  | Call_UnpackRootfs engine string Manifest MapOptions
  | Call_FixPerms string
  | Call_PermWalkRaiseError string

text \<open>
  The world is the filesystem and the history of calls made so far, each with the
  filesystem as it was when the call was made.
\<close>

record world =
  w_fs :: fs
  w_hist :: "(event \<times> fs) list"

definition emit :: "event \<Rightarrow> world \<Rightarrow> world" where
  "emit ev w = w\<lparr>w_hist := w_hist w @ [(ev, w_fs w)]\<rparr>"

fun emits :: "event list \<Rightarrow> world \<Rightarrow> world" where
  "emits [] w = w"
| "emits (ev # evs) w = emits evs (emit ev w)"

definition calls :: "world \<Rightarrow> event list" where
  "calls w = map fst (w_hist w)"

section \<open>The permission scanner\<close>

text \<open>
  One call of the walk function: the path, the entry's mode (read only when the access
  succeeded) and the error of the access, if any.
\<close>

record visit =
  v_path :: string
  v_mode :: FileMode
  v_err :: "ext_error option"

definition errRestrictivePerm :: go_error where
  "errRestrictivePerm = errors_New ''restrictive file permission found''"

text \<open>The function literal handed to the walker (lines 142 to 160).\<close>

definition checkPerms_walkFn :: "visit \<Rightarrow> event list \<times> go_error option" where
  "checkPerms_walkFn v =
     (case v_err v of
        Some err \<Rightarrow>
          if IsPermission err
          then ([sylog_Debugf ''Path %q has restrictive permissions'' [v_path v]],
                Some errRestrictivePerm)
          else ([], Some (fmt_Errorf ''unable to access rootfs path %s: %s''
                            [v_path v, Error err]))
      | None \<Rightarrow>
          if IsDir (v_mode v) \<and> Perm (v_mode v) AND o700 \<noteq> o700
          then ([sylog_Debugf ''Path %q has restrictive permissions'' [v_path v]],
                Some errRestrictivePerm)
          else ([], None))"

text \<open>
  Modelled from the spec: \<^verbatim>\<open>fs.PermWalkRaiseError\<close> (internal/pkg/util/fs) is not among
  the sources. The spec's filesystem walker primitive "visits every entry under a root,
  invoking a caller-supplied per-entry evaluator that may itself signal early
  termination": the entries are given in the order the walker meets them, the walk stops
  at the first entry whose evaluation returns an error, and that error is the walk's
  result.
\<close>

fun PermWalkRaiseError ::
  "visit list \<Rightarrow> (visit \<Rightarrow> event list \<times> go_error option) \<Rightarrow> event list \<times> go_error option"
where
  "PermWalkRaiseError [] walkFn = ([], None)"
| "PermWalkRaiseError (v # vs) walkFn =
     (case walkFn v of
        (evs, Some e) \<Rightarrow> (evs, Some e)
      | (evs, None) \<Rightarrow>
          (case PermWalkRaiseError vs walkFn of (evs', r) \<Rightarrow> (evs @ evs', r)))"

definition restrictive_warnings :: "event list" where
  "restrictive_warnings =
     [sylog_Warningf ''The sandbox contain files/dirs that cannot be removed with 'rm'.'' [],
      sylog_Warningf ''Use 'chmod -R u+rwX' to set permissions that allow removal.'' [],
      sylog_Warningf
        ''Use the '--fix-perms' option to 'apptainer build' to modify permissions at build time.''
        []]"

text \<open>
  \<open>checkPerms\<close> (lines 137 to 170). The first argument gives, for a root, the entries
  the walker meets under it. The result is the calls and log lines made, and the error
  returned.
\<close>

definition checkPerms :: "(string \<Rightarrow> visit list) \<Rightarrow> string \<Rightarrow> event list \<times> go_error option" where
  "checkPerms entries rootfs =
     (case PermWalkRaiseError (entries rootfs) checkPerms_walkFn of
        (evs, err) \<Rightarrow>
          if errors_Is err errRestrictivePerm
          then (Call_PermWalkRaiseError rootfs # evs @ restrictive_warnings, None)
          else (Call_PermWalkRaiseError rootfs # evs, err))"

fun is_Warningf :: "event \<Rightarrow> bool" where
  "is_Warningf (sylog_Warningf f args) = True"
| "is_Warningf ev = False"

section \<open>Building the ID mappings\<close>

text \<open>
  \<^verbatim>\<open>fmt.Sprintf("%d", n)\<close> for a Go \<^verbatim>\<open>int\<close> (64 bits, two's complement): the decimal
  digits, after a minus sign when the value is negative.
\<close>

definition digit_char :: "nat \<Rightarrow> char" where
  "digit_char d = ''0123456789'' ! d"

function itoa_nat :: "nat \<Rightarrow> string" where
  "itoa_nat n = (if n < 10 then [digit_char n] else itoa_nat (n div 10) @ [digit_char (n mod 10)])"
  by pat_completeness auto
termination
  by (relation "measure id") auto

declare itoa_nat.simps [simp del]

definition fmt_d :: "64 word \<Rightarrow> string" where
  "fmt_d x = (if sint x < 0 then CHR ''-'' # itoa_nat (nat (- sint x)) else itoa_nat (nat (sint x)))"

text \<open>The format \<^verbatim>\<open>"0:%d:1"\<close> of lines 61 and 67.\<close>

definition Sprintf_0_d_1 :: "64 word \<Rightarrow> string" where
  "Sprintf_0_d_1 x = ''0:'' @ fmt_d x @ '':1''"

text \<open>
  \<^verbatim>\<open>strconv.Atoi\<close>: an optional sign, then one or more decimal digits; a syntax error
  otherwise, a range error when the value does not fit a Go \<^verbatim>\<open>int\<close>.
\<close>

definition is_digit :: "char \<Rightarrow> bool" where
  "is_digit c = (c \<in> set ''0123456789'')"

definition digit_val :: "char \<Rightarrow> nat" where
  "digit_val c = of_char c - 48"

fun parse_digits :: "nat \<Rightarrow> string \<Rightarrow> nat option" where
  "parse_digits acc [] = Some acc"
| "parse_digits acc (c # cs) =
     (if is_digit c then parse_digits (acc * 10 + digit_val c) cs else None)"

definition ErrSyntax :: ext_error where
  "ErrSyntax = ExtError False False ''invalid syntax''"

definition ErrRange :: ext_error where
  "ErrRange = ExtError False False ''value out of range''"

definition strconv_Atoi :: "string \<Rightarrow> ext_error + 64 word" where
  "strconv_Atoi s =
     (let (neg, ds) =
            (case s of
               [] \<Rightarrow> (False, s)
             | c # cs \<Rightarrow>
                 if c = CHR ''-'' then (True, cs)
                 else if c = CHR ''+'' then (False, cs)
                 else (False, s))
      in if ds = [] then Inl ErrSyntax
         else case parse_digits 0 ds of
                None \<Rightarrow> Inl ErrSyntax
              | Some n \<Rightarrow>
                  let i = (if neg then - int n else int n)
                  in if - (2 ^ 63) \<le> i \<and> i < 2 ^ 63 then Inr (word_of_int i) else Inl ErrRange)"

text \<open>\<^verbatim>\<open>strings.Split(s, ":")\<close>.\<close>

fun strings_Split_colon :: "string \<Rightarrow> string list" where
  "strings_Split_colon [] = [[]]"
| "strings_Split_colon (c # cs) =
     (if c = CHR '':'' then [] # strings_Split_colon cs
      else case strings_Split_colon cs of
             x # xs \<Rightarrow> (c # x) # xs
           | [] \<Rightarrow> [[c]])"

text \<open>
  \<^verbatim>\<open>idtools.ParseMapping\<close> belongs to umoci, not to this repository. It reads a
  mapping written \<^verbatim>\<open>container:host[:size]\<close>: two or three fields separated by colons,
  each read by \<^verbatim>\<open>strconv.Atoi\<close> (the size first) and converted to \<^verbatim>\<open>uint32\<close>; the size
  is 1 when absent.
\<close>

definition uint32 :: "64 word \<Rightarrow> 32 word" where
  "uint32 x = ucast x"

definition idtools_ParseMapping :: "string \<Rightarrow> ext_error + LinuxIDMapping" where
  "idtools_ParseMapping spec =
     (case strings_Split_colon spec of
        [c, h, s] \<Rightarrow>
          (case strconv_Atoi s of
             Inl e \<Rightarrow> Inl e
           | Inr sz \<Rightarrow>
               (case strconv_Atoi c of
                  Inl e \<Rightarrow> Inl e
                | Inr contID \<Rightarrow>
                    (case strconv_Atoi h of
                       Inl e \<Rightarrow> Inl e
                     | Inr hostID \<Rightarrow>
                         Inr \<lparr>ContainerID = uint32 contID, HostID = uint32 hostID,
                              m_Size = uint32 sz\<rparr>)))
      | [c, h] \<Rightarrow>
          (case strconv_Atoi c of
             Inl e \<Rightarrow> Inl e
           | Inr contID \<Rightarrow>
               (case strconv_Atoi h of
                  Inl e \<Rightarrow> Inl e
                | Inr hostID \<Rightarrow>
                    Inr \<lparr>ContainerID = uint32 contID, HostID = uint32 hostID, m_Size = 1\<rparr>))
      | _ \<Rightarrow> Inl (ExtError False False ''invalid number of fields in mapping''))"

section \<open>The environment of \<open>unpackRootfs\<close>\<close>

text \<open>
  What the calls on other packages answer. The three \<^verbatim>\<open>sylog\<close> level constants are
  declared in pkg/sylog, which is not among the sources, and are taken as given. The
  JSON decoder writes into the manifest it is handed and returns an error or nil.
  \<^verbatim>\<open>os.RemoveAll\<close> removes what it can of the path and of what the path holds, and
  returns the first error it met, or nil: it answers with the filesystem it leaves and
  that error.
\<close>

record env =
  sylog_GetLevel :: int
  sylog_ErrorLevel :: int
  sylog_LogLevel :: int
  sylog_DebugLevel :: int
  namespaces_IsUnprivileged :: bool
  os_Geteuid :: "64 word"
  os_Getegid :: "64 word"
  umoci_OpenLayout :: "string \<Rightarrow> ext_error + engine"
  NewImageSource :: "ext_error option"
  GetManifest :: "ext_error + string \<times> string"
  json_Unmarshal :: "string \<Rightarrow> Manifest \<Rightarrow> Manifest \<times> ext_error option"
  os_RemoveAll :: "string \<Rightarrow> fs \<Rightarrow> fs \<times> ext_error option"
  umocilayer_UnpackRootfs ::
    "engine \<Rightarrow> string \<Rightarrow> Manifest \<Rightarrow> MapOptions \<Rightarrow> fs \<Rightarrow> fs \<times> ext_error option"
  sytypes_FixPerms :: "string \<Rightarrow> fs \<Rightarrow> fs \<times> ext_error option"
  fs_entries :: "fs \<Rightarrow> string \<Rightarrow> visit list"

section \<open>\<open>unpackRootfs\<close>\<close>

text \<open>Lines 39 to 54: the level set on umoci's logger.\<close>

definition unpackRootfs_loglevel :: "env \<Rightarrow> apex_level" where
  "unpackRootfs_loglevel e =
     (if sylog_GetLevel e \<le> sylog_ErrorLevel e then apex_ErrorLevel
      else if sylog_GetLevel e \<le> sylog_LogLevel e then apex_WarnLevel
      else if sylog_GetLevel e < sylog_DebugLevel e then apex_InfoLevel
      else apex_DebugLevel)"

text \<open>Lines 56 to 72: the mapping options, or the error of an early return.\<close>

definition unpackRootfs_mapOptions :: "env \<Rightarrow> world \<Rightarrow> (go_error + MapOptions) \<times> world" where
  "unpackRootfs_mapOptions e w =
     (if namespaces_IsUnprivileged e then
        (let w1 = emit (sylog_Debugf ''setting umoci rootless mode'' []) w;
             mo1 = zero_MapOptions\<lparr>Rootless := True\<rparr>
         in (case idtools_ParseMapping (Sprintf_0_d_1 (os_Geteuid e)) of
               Inl err \<Rightarrow> (Inl (fmt_Errorf ''error parsing uidmap: %s'' [Error err]), w1)
             | Inr uidMap \<Rightarrow>
                 (let mo2 = mo1\<lparr>UIDMappings := UIDMappings mo1 @ [uidMap]\<rparr>
                  in (case idtools_ParseMapping (Sprintf_0_d_1 (os_Getegid e)) of
                        Inl err \<Rightarrow>
                          (Inl (fmt_Errorf ''error parsing gidmap: %s'' [Error err]), w1)
                      | Inr gidMap \<Rightarrow>
                          (Inr (mo2\<lparr>GIDMappings := GIDMappings mo2 @ [gidMap]\<rparr>), w1)))))
      else (Inr zero_MapOptions, w))"

text \<open>Lines 93 to 102: the config media type is forced, the layer media types rewritten.\<close>

definition rewrite_layer :: "Descriptor \<Rightarrow> Descriptor" where
  "rewrite_layer d =
     (if MediaType d = ''application/vnd.docker.image.rootfs.diff.tar.gzip''
      then d\<lparr>MediaType := ''application/vnd.oci.image.layer.v1.tar+gzip''\<rparr>
      else if MediaType d = ''application/vnd.docker.image.rootfs.diff.tar''
      then d\<lparr>MediaType := ''application/vnd.oci.image.layer.v1.tar''\<rparr>
      else d)"

function layers_loop :: "nat \<Rightarrow> Descriptor list \<Rightarrow> Descriptor list" where
  "layers_loop idx ls =
     (if idx < length ls then layers_loop (Suc idx) (ls[idx := rewrite_layer (ls ! idx)])
      else ls)"
  by pat_completeness auto
termination
  by (relation "measure (\<lambda>(idx, ls). length ls - idx)") auto

declare layers_loop.simps [simp del]

definition unpackRootfs_normalize :: "Manifest \<Rightarrow> Manifest" where
  "unpackRootfs_normalize m =
     (let m1 = m\<lparr>Config := (Config m)\<lparr>MediaType := MediaTypeImageConfig\<rparr>\<rparr>
      in m1\<lparr>Layers := layers_loop 0 (Layers m1)\<rparr>)"

text \<open>Lines 114 to 131: what follows a successful unpack.\<close>

definition unpackRootfs_post :: "env \<Rightarrow> Bundle \<Rightarrow> world \<Rightarrow> go_error option \<times> world" where
  "unpackRootfs_post e b w =
     (if FixPerms (Opts b) then
        (let w1 = emits
                    [sylog_Warningf
                       ''The --fix-perms option modifies the filesystem permissions on the resulting container.''
                       [],
                     sylog_Debugf ''Modifying permissions for file/directory owners'' [],
                     Call_FixPerms (RootfsPath b)] w
         in (case sytypes_FixPerms e (RootfsPath b) (w_fs w1) of
               (f', r) \<Rightarrow> (map_option External r, w1\<lparr>w_fs := f'\<rparr>)))
      else if SandboxTarget (Opts b) then
        (let w1 = emit (sylog_Debugf ''Scanning for restrictive permissions'' []) w
         in (case checkPerms (fs_entries e (w_fs w1)) (RootfsPath b) of
               (evs, r) \<Rightarrow> (r, emits evs w1)))
      else (None, w))"

text \<open>
  Lines 91 to 112: decoding, normalisation, removal of the rootfs path, the unpack. The
  errors that \<^verbatim>\<open>json.Unmarshal\<close> (line 92) and \<^verbatim>\<open>os.RemoveAll\<close> (line 105) return
  are not read by the source.
\<close>

definition unpackRootfs_extract ::
  "env \<Rightarrow> Bundle \<Rightarrow> MapOptions \<Rightarrow> engine \<Rightarrow> string \<Rightarrow> world \<Rightarrow> go_error option \<times> world"
where
  "unpackRootfs_extract e b mapOptions engineExt manifestData w =
     (let w1 = emit (Call_Unmarshal manifestData) w;
          manifest = unpackRootfs_normalize (fst (json_Unmarshal e manifestData zero_Manifest));
          w2 = emit (Call_RemoveAll (RootfsPath b)) w1;
          w3 = w2\<lparr>w_fs := fst (os_RemoveAll e (RootfsPath b) (w_fs w2))\<rparr>;
          w4 = emit (Call_UnpackRootfs engineExt (RootfsPath b) manifest mapOptions) w3
      in (case umocilayer_UnpackRootfs e engineExt (RootfsPath b) manifest mapOptions (w_fs w4) of
            (f', Some err) \<Rightarrow>
              (Some (fmt_Errorf ''error unpacking rootfs: %s'' [Error err]), w4\<lparr>w_fs := f'\<rparr>)
          | (f', None) \<Rightarrow> unpackRootfs_post e b (w4\<lparr>w_fs := f'\<rparr>)))"

text \<open>Lines 79 to 90, then the rest: the manifest is fetched and its media type checked.\<close>

definition unpackRootfs_fetch ::
  "env \<Rightarrow> Bundle \<Rightarrow> MapOptions \<Rightarrow> engine \<Rightarrow> world \<Rightarrow> go_error option \<times> world"
where
  "unpackRootfs_fetch e b mapOptions engineExt w =
     (let w4 = emit Call_NewImageSource w
      in (case NewImageSource e of
            Some err \<Rightarrow> (Some (fmt_Errorf ''error creating image source: %s'' [Error err]), w4)
          | None \<Rightarrow>
              (let w5 = emit Call_GetManifest w4
               in (case GetManifest e of
                     Inl err \<Rightarrow>
                       (Some (fmt_Errorf ''error obtaining manifest source: %s'' [Error err]), w5)
                   | Inr (manifestData, mediaType) \<Rightarrow>
                       (if mediaType \<noteq> MediaTypeImageManifest
                        then (Some (fmt_Errorf ''error verifying manifest media type: %s''
                                      [mediaType]), w5)
                        else unpackRootfs_extract e b mapOptions engineExt manifestData w5)))))"

text \<open>\<open>unpackRootfs\<close> (lines 36 to 132).\<close>

definition unpackRootfs :: "env \<Rightarrow> Bundle \<Rightarrow> world \<Rightarrow> go_error option \<times> world" where
  "unpackRootfs e b w0 =
     (let w1 = emit (apexlog_SetLevel (unpackRootfs_loglevel e)) w0
      in (case unpackRootfs_mapOptions e w1 of
            (Inl err, w2) \<Rightarrow> (Some err, w2)
          | (Inr mapOptions, w2) \<Rightarrow>
              (let w3 = emit (Call_OpenLayout (TmpDir b)) w2
               in (case umoci_OpenLayout e (TmpDir b) of
                     Inl err \<Rightarrow> (Some (fmt_Errorf ''error opening layout: %s'' [Error err]), w3)
                   | Inr engineExt \<Rightarrow> unpackRootfs_fetch e b mapOptions engineExt w3))))"

text \<open>A run starts on a filesystem with no call made yet.\<close>

definition initial :: "fs \<Rightarrow> world" where
  "initial f = \<lparr>w_fs = f, w_hist = []\<rparr>"

section \<open>\<open>RemoteList\<close>\<close>

text \<open>
  The configuration types are declared in internal/pkg/remote, which is not among the
  sources; these are the fields \<open>RemoteList\<close> reads.
\<close>

record EndPoint =
  URI :: string
  System :: bool
  Exclusive :: bool
  Insecure :: bool

record remote_Config =
  DefaultRemote :: string
  Remotes :: "string \<rightharpoonup> EndPoint"

definition zero_EndPoint :: EndPoint where
  "zero_EndPoint = \<lparr>URI = [], System = False, Exclusive = False, Insecure = False\<rparr>"

text \<open>
  \<^verbatim>\<open>c.Remotes[n]\<close> for a name \<open>n\<close> obtained by ranging over the map, so that it is a key.
\<close>

definition Remotes_at :: "remote_Config \<Rightarrow> string \<Rightarrow> EndPoint" where
  "Remotes_at c n = (case Remotes c n of Some ep \<Rightarrow> ep | None \<Rightarrow> zero_EndPoint)"

subsection \<open>Opening the configuration file\<close>

definition ENOENT :: ext_error where
  "ENOENT = ExtError False True ''no such file or directory''"

definition EACCES :: ext_error where
  "EACCES = ExtError True False ''permission denied''"

definition ENOTDIR :: ext_error where
  "ENOTDIR = ExtError False False ''not a directory''"

text \<open>
  Paths are absolute and clean: each component follows a separator, and the root
  directory is the empty path.
\<close>

definition path_parent :: "string \<Rightarrow> string" where
  "path_parent p = rev (drop 1 (dropWhile (\<lambda>c. c \<noteq> CHR ''/'') (rev p)))"

definition o100 :: FileMode where
  "o100 = 0x40"

definition o200 :: FileMode where
  "o200 = 0x80"

definition o400 :: FileMode where
  "o400 = 0x100"

definition o600 :: FileMode where
  "o600 = 0x180"

text \<open>
  \<^verbatim>\<open>os.OpenFile(name, os.O_RDONLY|os.O_CREATE, perm)\<close>, after open(2), for a process that
  owns the entries it meets, so that the owner bits decide: the parent must be a
  directory that can be searched; an existing entry is opened when it can be read; an
  absent one is created empty with mode \<open>perm\<close> less the umask, when the parent can be
  written, and opened. The open file is given as its inode.
\<close>

definition os_OpenFile_RDONLY_CREATE ::
  "FileMode \<Rightarrow> string \<Rightarrow> FileMode \<Rightarrow> fs \<Rightarrow> (ext_error + inode) \<times> fs"
where
  "os_OpenFile_RDONLY_CREATE um name perm f =
     (case f (path_parent name) of
        None \<Rightarrow> (Inl ENOENT, f)
      | Some d \<Rightarrow>
          (if \<not> IsDir (i_mode d) then (Inl ENOTDIR, f)
           else if i_mode d AND o100 = 0 then (Inl EACCES, f)
           else (case f name of
                   Some node \<Rightarrow>
                     (if i_mode node AND o400 = 0 then (Inl EACCES, f) else (Inr node, f))
                 | None \<Rightarrow>
                     (if i_mode d AND o200 = 0 then (Inl EACCES, f)
                      else (let node = \<lparr>i_mode = perm AND NOT um, i_content = []\<rparr>
                            in (Inr node, f(name \<mapsto> node)))))))"

subsection \<open>The listing\<close>

text \<open>
  What the calls on code outside the file answer. \<^verbatim>\<open>remote.ReadFrom\<close> and
  \<^verbatim>\<open>syncSysConfig\<close> are not among the sources. The order in which \<^verbatim>\<open>range c.Remotes\<close>
  yields the keys is left open by Go.
\<close>

record rl_env =
  umask :: FileMode
  remote_ReadFrom :: "inode \<Rightarrow> ext_error + remote_Config"
  syncSysConfig :: "remote_Config \<Rightarrow> ext_error + remote_Config"
  range_Remotes :: "remote_Config \<Rightarrow> string list"

text \<open>The comparison handed to \<^verbatim>\<open>sort.Slice\<close> (lines 53 to 63).\<close>

definition RemoteList_less :: "remote_Config \<Rightarrow> string \<Rightarrow> string \<Rightarrow> bool" where
  "RemoteList_less c iName jName =
     (if System (Remotes_at c iName) \<and> \<not> System (Remotes_at c jName) then True
      else if \<not> System (Remotes_at c iName) \<and> System (Remotes_at c jName) then False
      else iName < jName)"

text \<open>
  \<^verbatim>\<open>sort.Slice\<close> sorts by the comparison it is given and promises no stability; it
  is taken here as insertion from the right. \<^verbatim>\<open>sort.Strings\<close> sorts in increasing
  order of Go's comparison of strings, which is byte by byte.
\<close>

fun insert_by :: "('a \<Rightarrow> 'a \<Rightarrow> bool) \<Rightarrow> 'a \<Rightarrow> 'a list \<Rightarrow> 'a list" where
  "insert_by lt x [] = [x]"
| "insert_by lt x (y # ys) = (if lt x y then x # y # ys else y # insert_by lt x ys)"

definition sort_Slice :: "('a \<Rightarrow> 'a \<Rightarrow> bool) \<Rightarrow> 'a list \<Rightarrow> 'a list" where
  "sort_Slice lt xs = foldr (insert_by lt) xs []"

definition sort_Strings :: "string list \<Rightarrow> string list" where
  "sort_Strings xs = sort xs"

text \<open>Lines 48 to 64: the names in the order of display.\<close>

definition RemoteList_names :: "rl_env \<Rightarrow> remote_Config \<Rightarrow> string list" where
  "RemoteList_names e c = sort_Strings (sort_Slice (RemoteList_less c) (range_Remotes e c))"

text \<open>
  The spec's reading of the same lines: the first sort is dead, the listing is in plain
  alphabetical order.
\<close>

definition names_alphabetical_spec :: "rl_env \<Rightarrow> remote_Config \<Rightarrow> string list" where
  "names_alphabetical_spec e c = sort_Strings (range_Remotes e c)"

datatype out = Println string | Fprintf_tw "string list"

definition YES_NO :: "bool \<Rightarrow> string" where
  "YES_NO b = (if b then ''YES'' else ''NO'')"

definition RemoteList_header :: "out list" where
  "RemoteList_header =
     [Println ''Cloud Services Endpoints'',
      Println ''========================'',
      Println [],
      Fprintf_tw [''NAME'', ''URI'', ''ACTIVE'', ''GLOBAL'', ''EXCLUSIVE'', ''INSECURE'']]"

definition RemoteList_row :: "remote_Config \<Rightarrow> string \<Rightarrow> out" where
  "RemoteList_row c n =
     Fprintf_tw
       [n, URI (Remotes_at c n),
        YES_NO (DefaultRemote c \<noteq> [] \<and> DefaultRemote c = n),
        YES_NO (System (Remotes_at c n)),
        YES_NO (Exclusive (Remotes_at c n)),
        YES_NO (Insecure (Remotes_at c n))]"

text \<open>\<open>RemoteList\<close> (lines 25 to 95): the error returned, the lines printed, the filesystem left.\<close>

definition RemoteList :: "rl_env \<Rightarrow> string \<Rightarrow> fs \<Rightarrow> (go_error option \<times> out list) \<times> fs" where
  "RemoteList e usrConfigFile f =
     (case os_OpenFile_RDONLY_CREATE (umask e) usrConfigFile o600 f of
        (Inl err, f') \<Rightarrow>
          (if IsNotExist err then ((Some (fmt_Errorf ''no remote configurations'' []), []), f')
           else ((Some (fmt_Errorf ''while opening remote config file: %s'' [Error err]), []), f'))
      | (Inr file, f') \<Rightarrow>
          (case remote_ReadFrom e file of
             Inl err \<Rightarrow>
               ((Some (fmt_Errorf ''while parsing remote config data: %s'' [Error err]), []), f')
           | Inr c \<Rightarrow>
               (case syncSysConfig e c of
                  Inl err \<Rightarrow> ((Some (External err), []), f')
                | Inr c' \<Rightarrow>
                    ((None, RemoteList_header @ map (RemoteList_row c') (RemoteList_names e c')),
                     f'))))"

section \<open>Example inputs\<close>

text \<open>
  A rootfs with a directory of mode 0700 and one of mode 0500, as the walker meets it;
  the same with an entry that cannot be read for want of permission, and with one whose
  access fails for another reason.
\<close>

definition example_entries :: "string \<Rightarrow> visit list" where
  "example_entries root =
     [\<lparr>v_path = root, v_mode = 0x800001ED, v_err = None\<rparr>,
      \<lparr>v_path = root @ ''/a'', v_mode = 0x800001C0, v_err = None\<rparr>,
      \<lparr>v_path = root @ ''/b'', v_mode = 0x80000140, v_err = None\<rparr>,
      \<lparr>v_path = root @ ''/b/f'', v_mode = 0x1A4, v_err = None\<rparr>]"

definition example_stale :: ext_error where
  "example_stale = ExtError False False ''stale NFS file handle''"

definition example_entries_stale :: "string \<Rightarrow> visit list" where
  "example_entries_stale root =
     [\<lparr>v_path = root, v_mode = 0x800001ED, v_err = None\<rparr>,
      \<lparr>v_path = root @ ''/a'', v_mode = 0, v_err = Some example_stale\<rparr>,
      \<lparr>v_path = root @ ''/b'', v_mode = 0x80000140, v_err = None\<rparr>]"

text \<open>
  A build of a sandbox by an unprivileged user with effective IDs 1000 and 100: the
  manifest fetched decodes to two Docker layers and an OCI one, the removal of the rootfs
  path takes away the directory and the file it holds, the unpack creates the rootfs
  directory.
\<close>

definition example_manifest :: Manifest where
  "example_manifest =
     \<lparr>SchemaVersion = 2,
      Config = \<lparr>MediaType = ''application/vnd.docker.container.image.v1+json'',
                Digest = ''sha256:c0'', Size = 1469, URLs = [], d_Annotations = []\<rparr>,
      Layers =
        [\<lparr>MediaType = ''application/vnd.docker.image.rootfs.diff.tar.gzip'',
          Digest = ''sha256:a1'', Size = 2811478, URLs = [], d_Annotations = []\<rparr>,
         \<lparr>MediaType = ''application/vnd.docker.image.rootfs.diff.tar'',
          Digest = ''sha256:b2'', Size = 10240, URLs = [], d_Annotations = []\<rparr>,
         \<lparr>MediaType = ''application/vnd.oci.image.layer.v1.tar+zstd'',
          Digest = ''sha256:c3'', Size = 512, URLs = [], d_Annotations = []\<rparr>],
      m_Annotations = []\<rparr>"

definition example_env :: env where
  "example_env =
     \<lparr>sylog_GetLevel = 1, sylog_ErrorLevel = - 3, sylog_LogLevel = - 1, sylog_DebugLevel = 5,
      namespaces_IsUnprivileged = True, os_Geteuid = 1000, os_Getegid = 100,
      umoci_OpenLayout = (\<lambda>p. Inr (Engine p)),
      NewImageSource = None,
      GetManifest = Inr (''{\"schemaVersion\":2}'', MediaTypeImageManifest),
      json_Unmarshal = (\<lambda>d m. (example_manifest, None)),
      os_RemoveAll =
        (\<lambda>p g. (g(''/tmp/build/rootfs'' := None, ''/tmp/build/rootfs/old'' := None), None)),
      umocilayer_UnpackRootfs =
        (\<lambda>eng p m mo g. (g(p \<mapsto> \<lparr>i_mode = 0x800001ED, i_content = []\<rparr>), None)),
      sytypes_FixPerms = (\<lambda>p g. (g, None)),
      fs_entries = (\<lambda>g. example_entries)\<rparr>"

definition example_bundle :: Bundle where
  "example_bundle =
     \<lparr>TmpDir = ''/tmp/build/oci'', RootfsPath = ''/tmp/build/rootfs'',
      Opts = \<lparr>FixPerms = False, SandboxTarget = True\<rparr>\<rparr>"

definition example_fs :: fs where
  "example_fs =
     [''/tmp/build'' \<mapsto> \<lparr>i_mode = 0x800001ED, i_content = []\<rparr>,
      ''/tmp/build/rootfs'' \<mapsto> \<lparr>i_mode = 0x800001ED, i_content = []\<rparr>,
      ''/tmp/build/rootfs/old'' \<mapsto> \<lparr>i_mode = 0x1A4, i_content = ''left over''\<rparr>]"

text \<open>
  The same build when the registry answers with bytes that are not JSON: the decoder
  reports the error and leaves the manifest it was handed as it was.
\<close>

definition example_env_malformed :: env where
  "example_env_malformed =
     example_env
       \<lparr>GetManifest := Inr (''{'', MediaTypeImageManifest),
        json_Unmarshal := (\<lambda>d m. (m, Some (ExtError False False ''unexpected end of JSON input'')))\<rparr>"

text \<open>The same build when the registry answers with an image index.\<close>

definition example_env_index :: env where
  "example_env_index =
     example_env
       \<lparr>GetManifest := Inr (''{\"manifests\":[]}'', ''application/vnd.oci.image.index.v1+json'')\<rparr>"

text \<open>The same bundle built with both options set, and with neither.\<close>

definition example_bundle_fixperms :: Bundle where
  "example_bundle_fixperms = example_bundle\<lparr>Opts := \<lparr>FixPerms = True, SandboxTarget = True\<rparr>\<rparr>"

definition example_bundle_plain :: Bundle where
  "example_bundle_plain = example_bundle\<lparr>Opts := \<lparr>FixPerms = False, SandboxTarget = False\<rparr>\<rparr>"

text \<open>The filesystems that the removal and the unpack of the examples leave.\<close>

definition example_removed :: fs where
  "example_removed =
     example_fs(''/tmp/build/rootfs'' := None, ''/tmp/build/rootfs/old'' := None)"

definition example_unpacked :: fs where
  "example_unpacked =
     example_removed(''/tmp/build/rootfs'' \<mapsto> \<lparr>i_mode = 0x800001ED, i_content = []\<rparr>)"

text \<open>
  The same build over a rootfs left by an earlier one, which holds a directory of mode
  0500 with a file in it. The user is not root and cannot unlink the file, so
  \<^verbatim>\<open>os.RemoveAll\<close> removes nothing and returns a permission error.
\<close>

definition example_fs_restrictive :: fs where
  "example_fs_restrictive =
     [''/tmp/build'' \<mapsto> \<lparr>i_mode = 0x800001ED, i_content = []\<rparr>,
      ''/tmp/build/rootfs'' \<mapsto> \<lparr>i_mode = 0x800001ED, i_content = []\<rparr>,
      ''/tmp/build/rootfs/ro'' \<mapsto> \<lparr>i_mode = 0x80000140, i_content = []\<rparr>,
      ''/tmp/build/rootfs/ro/old'' \<mapsto> \<lparr>i_mode = 0x1A4, i_content = ''left over''\<rparr>]"

definition example_env_unremovable :: env where
  "example_env_unremovable = example_env\<lparr>os_RemoveAll := (\<lambda>p g. (g, Some EACCES))\<rparr>"

text \<open>
  A user whose configuration directory exists and whose configuration file does not.
  The empty file parses to a configuration without remotes; the system configuration
  contributes one remote, marked as a system remote. A second user has configured two
  remotes of their own.
\<close>

definition example_home :: fs where
  "example_home =
     [''/home/u'' \<mapsto> \<lparr>i_mode = 0x800001ED, i_content = []\<rparr>,
      ''/home/u/.apptainer'' \<mapsto> \<lparr>i_mode = 0x800001C0, i_content = []\<rparr>]"

definition example_system_remote :: EndPoint where
  "example_system_remote =
     \<lparr>URI = ''cloud.apptainer.org'', System = True, Exclusive = False, Insecure = False\<rparr>"

definition example_rl_env :: rl_env where
  "example_rl_env =
     \<lparr>umask = 0x12,
      remote_ReadFrom =
        (\<lambda>file. if i_content file = [] then Inr \<lparr>DefaultRemote = [], Remotes = Map.empty\<rparr>
                else Inl (ExtError False False ''yaml: unmarshal errors'')),
      syncSysConfig =
        (\<lambda>c. Inr (c\<lparr>Remotes := (Remotes c)(''DefaultRemote'' \<mapsto> example_system_remote)\<rparr>)),
      range_Remotes =
        (\<lambda>c. filter (\<lambda>n. Remotes c n \<noteq> None) [''mine'', ''DefaultRemote'', ''Alpha''])\<rparr>"

definition example_user_config :: remote_Config where
  "example_user_config =
     \<lparr>DefaultRemote = ''mine'',
      Remotes =
        [''mine'' \<mapsto> \<lparr>URI = ''registry.example.org'', System = False, Exclusive = False,
                         Insecure = False\<rparr>,
         ''Alpha'' \<mapsto> \<lparr>URI = ''alpha.example.org'', System = False, Exclusive = False,
                          Insecure = True\<rparr>,
         ''DefaultRemote'' \<mapsto> example_system_remote]\<rparr>"

text \<open>The same user on a machine whose system configuration contributes nothing.\<close>

definition example_rl_env_nosys :: rl_env where
  "example_rl_env_nosys = example_rl_env\<lparr>syncSysConfig := Inr\<rparr>"

section \<open>The calls of a run\<close>

text \<open>
  Names for what a run of \<open>unpackRootfs\<close> calls, used to state what the runs do: the calls
  up to the fetch of the manifest, the mapping options and the manifest handed to the
  unpack, and the calls after a successful unpack that left the filesystem \<open>g\<close>.
\<close>

definition prelude_calls :: "env \<Rightarrow> Bundle \<Rightarrow> event list" where
  "prelude_calls e b =
     apexlog_SetLevel (unpackRootfs_loglevel e) #
     (if namespaces_IsUnprivileged e then [sylog_Debugf ''setting umoci rootless mode'' []]
      else []) @
     [Call_OpenLayout (TmpDir b), Call_NewImageSource, Call_GetManifest]"

definition run_mapOptions :: "env \<Rightarrow> MapOptions" where
  "run_mapOptions e = (case fst (unpackRootfs_mapOptions e (initial Map.empty)) of
                         Inr mo \<Rightarrow> mo | Inl err \<Rightarrow> zero_MapOptions)"

definition run_manifest :: "env \<Rightarrow> string \<Rightarrow> Manifest" where
  "run_manifest e manifestData =
     unpackRootfs_normalize (fst (json_Unmarshal e manifestData zero_Manifest))"

definition post_calls :: "env \<Rightarrow> Bundle \<Rightarrow> fs \<Rightarrow> event list" where
  "post_calls e b g = map fst (w_hist (snd (unpackRootfs_post e b (initial g))))"

section \<open>Histories\<close>

lemma w_fs_emit: "w_fs (emit ev w) = w_fs w"
  by (simp add: emit_def)

lemma w_hist_emit: "w_hist (emit ev w) = w_hist w @ [(ev, w_fs w)]"
  by (simp add: emit_def)

lemma w_fs_emits: "w_fs (emits evs w) = w_fs w"
  by (induction evs arbitrary: w) (simp_all add: w_fs_emit)

lemma w_hist_emits: "w_hist (emits evs w) = w_hist w @ map (\<lambda>ev. (ev, w_fs w)) evs"
  by (induction evs arbitrary: w) (simp_all add: w_fs_emit w_hist_emit)

lemma calls_emit: "calls (emit ev w) = calls w @ [ev]"
  by (simp add: calls_def w_hist_emit)

lemma calls_emits: "calls (emits evs w) = calls w @ evs"
  by (simp add: calls_def w_hist_emits comp_def)

section \<open>The scanner\<close>

lemma walkFn_no_warning: "ev \<in> set (fst (checkPerms_walkFn v)) \<Longrightarrow> \<not> is_Warningf ev"
  by (auto simp: checkPerms_walkFn_def split: option.splits if_splits)

lemma walk_no_warning:
  "ev \<in> set (fst (PermWalkRaiseError vs checkPerms_walkFn)) \<Longrightarrow> \<not> is_Warningf ev"
proof (induction vs)
  case Nil
  then show ?case by simp
next
  case (Cons v vs)
  obtain evs r where w: "checkPerms_walkFn v = (evs, r)" by (cases "checkPerms_walkFn v")
  obtain evs' r' where w': "PermWalkRaiseError vs checkPerms_walkFn = (evs', r')"
    by (cases "PermWalkRaiseError vs checkPerms_walkFn")
  have "ev \<in> set evs \<or> ev \<in> set evs'"
    using Cons.prems w w' by (cases r) auto
  then show ?case
    using walkFn_no_warning [of ev v] Cons.IH w w' by auto
qed

lemma filter_walk_warnings:
  "filter is_Warningf (fst (PermWalkRaiseError vs checkPerms_walkFn)) = []"
  using walk_no_warning by (auto simp: filter_empty_conv)

text \<open>The walk returns the error of the first entry whose evaluation fails.\<close>

lemma walk_first_error:
  "\<forall>u \<in> set pre. snd (walkFn u) = None \<Longrightarrow> snd (walkFn v) = Some err \<Longrightarrow>
   snd (PermWalkRaiseError (pre @ v # post) walkFn) = Some err"
proof (induction pre)
  case Nil
  then show ?case by (cases "walkFn v") auto
next
  case (Cons u pre)
  then have "snd (PermWalkRaiseError (pre @ v # post) walkFn) = Some err" by simp
  moreover have "snd (walkFn u) = None" using Cons.prems by simp
  ultimately show ?case
    by (cases "walkFn u"; cases "PermWalkRaiseError (pre @ v # post) walkFn") auto
qed

lemma walk_all_pass:
  "\<forall>u \<in> set vs. snd (walkFn u) = None \<Longrightarrow> snd (PermWalkRaiseError vs walkFn) = None"
proof (induction vs)
  case Nil
  then show ?case by simp
next
  case (Cons u vs)
  then show ?case
    by (cases "walkFn u"; cases "PermWalkRaiseError vs walkFn") auto
qed

lemma snd_checkPerms:
  "snd (checkPerms entries r) =
     (if snd (PermWalkRaiseError (entries r) checkPerms_walkFn) = Some errRestrictivePerm then None
      else snd (PermWalkRaiseError (entries r) checkPerms_walkFn))"
  by (simp add: checkPerms_def errors_Is_def split: prod.splits)

lemma warnings_checkPerms:
  "filter is_Warningf (fst (checkPerms entries r)) =
     (if snd (PermWalkRaiseError (entries r) checkPerms_walkFn) = Some errRestrictivePerm
      then restrictive_warnings else [])"
proof -
  obtain evs err where w: "PermWalkRaiseError (entries r) checkPerms_walkFn = (evs, err)"
    by (cases "PermWalkRaiseError (entries r) checkPerms_walkFn")
  have "filter is_Warningf evs = []"
    using filter_walk_warnings [of "entries r"] w by simp
  moreover have "filter is_Warningf restrictive_warnings = restrictive_warnings"
    by (simp add: restrictive_warnings_def)
  ultimately show ?thesis
    using w by (simp add: checkPerms_def errors_Is_def)
qed

lemma walk_example_entries:
  "snd (PermWalkRaiseError (example_entries root) checkPerms_walkFn) = Some errRestrictivePerm"
  by (simp add: example_entries_def checkPerms_walkFn_def IsDir_def Perm_def ModeDir_def
      ModePerm_def o700_def)

lemma walk_example_entries_stale:
  "snd (PermWalkRaiseError (example_entries_stale root) checkPerms_walkFn) =
     Some (fmt_Errorf ''unable to access rootfs path %s: %s''
             [root @ ''/a'', ''stale NFS file handle''])"
  by (simp add: example_entries_stale_def example_stale_def checkPerms_walkFn_def IsDir_def
      Perm_def ModeDir_def ModePerm_def o700_def)

text \<open>
  C2. Whenever the walk ends on the permission-violation sentinel, \<open>checkPerms\<close> returns
  nil and the warnings it has emitted are exactly the three fixed ones (removal will
  fail, the chmod command, the build-time flag). \<open>checkPerms\<close> never returns the
  sentinel. Any other error of the walk is returned as it is, with no warning.
\<close>

theorem checkPerms_sentinel_boundary:
  "(snd (PermWalkRaiseError (entries r) checkPerms_walkFn) = Some errRestrictivePerm \<longrightarrow>
      snd (checkPerms entries r) = None \<and>
      filter is_Warningf (fst (checkPerms entries r)) = restrictive_warnings \<and>
      length (filter is_Warningf (fst (checkPerms entries r))) = 3) \<and>
   snd (checkPerms entries r) \<noteq> Some errRestrictivePerm \<and>
   (\<forall>err. snd (PermWalkRaiseError (entries r) checkPerms_walkFn) = Some err \<and>
          err \<noteq> errRestrictivePerm \<longrightarrow>
          snd (checkPerms entries r) = Some err \<and>
          filter is_Warningf (fst (checkPerms entries r)) = [])"
  by (simp add: snd_checkPerms warnings_checkPerms) (simp add: restrictive_warnings_def)

theorem checkPerms_sentinel_boundary_witness:
  "snd (PermWalkRaiseError (example_entries ''/rootfs'') checkPerms_walkFn) =
     Some errRestrictivePerm \<and>
   snd (checkPerms example_entries ''/rootfs'') = None \<and>
   filter is_Warningf (fst (checkPerms example_entries ''/rootfs'')) = restrictive_warnings \<and>
   snd (PermWalkRaiseError (example_entries_stale ''/rootfs'') checkPerms_walkFn) =
     Some (fmt_Errorf ''unable to access rootfs path %s: %s''
             [''/rootfs/a'', ''stale NFS file handle'']) \<and>
   snd (checkPerms example_entries_stale ''/rootfs'') =
     Some (fmt_Errorf ''unable to access rootfs path %s: %s''
             [''/rootfs/a'', ''stale NFS file handle''])"
  using checkPerms_sentinel_boundary [of example_entries "''/rootfs''"]
    checkPerms_sentinel_boundary [of example_entries_stale "''/rootfs''"]
    walk_example_entries [of "''/rootfs''"] walk_example_entries_stale [of "''/rootfs''"]
  by (simp add: errRestrictivePerm_def)

text \<open>
  C7. The evaluator handed to the walker: an access that fails with a permission error
  raises the sentinel; an access that fails otherwise returns a wrapping error, and
  \<open>checkPerms\<close> returns that error to its caller when the entry is the first to fail; an
  accessible directory whose mode lacks one of the owner's read, write and execute bits
  raises the sentinel, one that has the three does not; an accessible entry that is not a
  directory raises nothing, whatever its mode.
\<close>

theorem checkPerms_walkFn_cases:
  "(v_err v = Some err \<and> IsPermission err \<longrightarrow>
      snd (checkPerms_walkFn v) = Some errRestrictivePerm) \<and>
   (v_err v = Some err \<and> \<not> IsPermission err \<longrightarrow>
      snd (checkPerms_walkFn v) =
        Some (fmt_Errorf ''unable to access rootfs path %s: %s'' [v_path v, Error err]) \<and>
      ((\<forall>u \<in> set pre. snd (checkPerms_walkFn u) = None) \<and> entries r = pre @ v # post \<longrightarrow>
         snd (checkPerms entries r) =
           Some (fmt_Errorf ''unable to access rootfs path %s: %s'' [v_path v, Error err]))) \<and>
   (v_err v = None \<and> IsDir (v_mode v) \<and> Perm (v_mode v) AND o700 \<noteq> o700 \<longrightarrow>
      snd (checkPerms_walkFn v) = Some errRestrictivePerm) \<and>
   (v_err v = None \<and> IsDir (v_mode v) \<and> Perm (v_mode v) AND o700 = o700 \<longrightarrow>
      snd (checkPerms_walkFn v) = None) \<and>
   (v_err v = None \<and> \<not> IsDir (v_mode v) \<longrightarrow> snd (checkPerms_walkFn v) = None)"
proof -
  have hard: "snd (checkPerms entries r) =
        Some (fmt_Errorf ''unable to access rootfs path %s: %s'' [v_path v, Error err])"
    if "v_err v = Some err" "\<not> IsPermission err"
       "\<forall>u \<in> set pre. snd (checkPerms_walkFn u) = None" "entries r = pre @ v # post"
  proof -
    have "snd (checkPerms_walkFn v) =
        Some (fmt_Errorf ''unable to access rootfs path %s: %s'' [v_path v, Error err])"
      using that by (simp add: checkPerms_walkFn_def)
    then have "snd (PermWalkRaiseError (entries r) checkPerms_walkFn) =
        Some (fmt_Errorf ''unable to access rootfs path %s: %s'' [v_path v, Error err])"
      using that walk_first_error [of pre checkPerms_walkFn v _ post] by simp
    then show ?thesis
      by (simp add: snd_checkPerms errRestrictivePerm_def)
  qed
  show ?thesis
    using hard by (auto simp: checkPerms_walkFn_def)
qed

theorem checkPerms_walkFn_cases_witness:
  "snd (checkPerms_walkFn \<lparr>v_path = ''/rootfs/x'', v_mode = 0, v_err = Some EACCES\<rparr>) =
     Some errRestrictivePerm \<and>
   snd (checkPerms_walkFn \<lparr>v_path = ''/rootfs/a'', v_mode = 0, v_err = Some example_stale\<rparr>) =
     Some (fmt_Errorf ''unable to access rootfs path %s: %s''
             [''/rootfs/a'', ''stale NFS file handle'']) \<and>
   snd (checkPerms example_entries_stale ''/rootfs'') =
     Some (fmt_Errorf ''unable to access rootfs path %s: %s''
             [''/rootfs/a'', ''stale NFS file handle'']) \<and>
   snd (checkPerms_walkFn \<lparr>v_path = ''/rootfs/b'', v_mode = 0x80000140, v_err = None\<rparr>) =
     Some errRestrictivePerm \<and>
   snd (checkPerms_walkFn \<lparr>v_path = ''/rootfs/a'', v_mode = 0x800001C0, v_err = None\<rparr>) = None \<and>
   snd (checkPerms_walkFn \<lparr>v_path = ''/rootfs/f'', v_mode = 0, v_err = None\<rparr>) = None"
  using
    checkPerms_walkFn_cases [of "\<lparr>v_path = ''/rootfs/x'', v_mode = 0, v_err = Some EACCES\<rparr>" EACCES]
    checkPerms_walkFn_cases [of "\<lparr>v_path = ''/rootfs/a'', v_mode = 0, v_err = Some example_stale\<rparr>"
      example_stale "[\<lparr>v_path = ''/rootfs'', v_mode = 0x800001ED, v_err = None\<rparr>]"
      example_entries_stale "''/rootfs''"
      "[\<lparr>v_path = ''/rootfs/b'', v_mode = 0x80000140, v_err = None\<rparr>]"]
    checkPerms_walkFn_cases [of "\<lparr>v_path = ''/rootfs/b'', v_mode = 0x80000140, v_err = None\<rparr>"]
    checkPerms_walkFn_cases [of "\<lparr>v_path = ''/rootfs/a'', v_mode = 0x800001C0, v_err = None\<rparr>"]
    checkPerms_walkFn_cases [of "\<lparr>v_path = ''/rootfs/f'', v_mode = 0, v_err = None\<rparr>"]
  by (simp add: EACCES_def example_stale_def example_entries_stale_def IsDir_def Perm_def
      ModeDir_def ModePerm_def o700_def checkPerms_walkFn_def)

section \<open>The ID mappings\<close>

text \<open>Reading back what \<^verbatim>\<open>%d\<close> printed gives the number printed.\<close>

lemma digit_char_cases:
  "d < 10 \<Longrightarrow> d = 0 \<or> d = 1 \<or> d = 2 \<or> d = 3 \<or> d = 4 \<or> d = 5 \<or> d = 6 \<or> d = 7 \<or> d = 8 \<or> d = (9::nat)"
  by arith

lemma is_digit_digit_char: "d < 10 \<Longrightarrow> is_digit (digit_char d)"
  using digit_char_cases [of d] by (auto simp: is_digit_def digit_char_def)

lemma digit_val_digit_char: "d < 10 \<Longrightarrow> digit_val (digit_char d) = d"
  using digit_char_cases [of d] by (auto simp: digit_val_def digit_char_def)

lemma is_digit_not_special:
  "is_digit c \<Longrightarrow> c \<noteq> CHR '':'' \<and> c \<noteq> CHR ''-'' \<and> c \<noteq> CHR ''+''"
  by (auto simp: is_digit_def)

lemma itoa_nat_digits: "c \<in> set (itoa_nat n) \<Longrightarrow> is_digit c"
proof (induction n rule: itoa_nat.induct)
  case (1 n)
  show ?case
  proof (cases "n < 10")
    case True
    then have "c = digit_char n"
      using "1.prems" by (subst (asm) itoa_nat.simps) simp
    then show ?thesis using True by (simp add: is_digit_digit_char)
  next
    case False
    then have "c \<in> set (itoa_nat (n div 10)) \<or> c = digit_char (n mod 10)"
      using "1.prems" by (subst (asm) itoa_nat.simps) auto
    then show ?thesis
      using "1.IH" False by (auto simp: is_digit_digit_char)
  qed
qed

lemma itoa_nat_nonempty: "itoa_nat n \<noteq> []"
  by (subst itoa_nat.simps) simp

lemma parse_digits_snoc:
  "is_digit c \<Longrightarrow>
   parse_digits acc (xs @ [c]) = map_option (\<lambda>a. a * 10 + digit_val c) (parse_digits acc xs)"
  by (induction xs arbitrary: acc) simp_all

lemma parse_digits_itoa_nat: "parse_digits 0 (itoa_nat n) = Some n"
proof (induction n rule: itoa_nat.induct)
  case (1 n)
  show ?case
  proof (cases "n < 10")
    case True
    then show ?thesis
      by (subst itoa_nat.simps) (simp add: is_digit_digit_char digit_val_digit_char)
  next
    case False
    have "parse_digits 0 (itoa_nat (n div 10) @ [digit_char (n mod 10)]) =
            Some (n div 10 * 10 + n mod 10)"
      using "1.IH" False
      by (simp add: parse_digits_snoc is_digit_digit_char digit_val_digit_char)
    then show ?thesis
      using False by (subst itoa_nat.simps) simp
  qed
qed

lemma strconv_Atoi_digits:
  assumes "ds = itoa_nat n" "int n < 2 ^ 63"
  shows "strconv_Atoi ds = Inr (word_of_int (int n))"
proof -
  have "ds \<noteq> []"
    using assms(1) itoa_nat_nonempty [of n] by simp
  then obtain c cs where ds: "ds = c # cs"
    by (cases ds) simp_all
  have "c \<in> set ds"
    by (simp add: ds)
  then have "c \<in> set (itoa_nat n)"
    unfolding assms(1) .
  then have "is_digit c"
    by (rule itoa_nat_digits)
  then have c: "c \<noteq> CHR ''-''" "c \<noteq> CHR ''+''"
    using is_digit_not_special by auto
  have "parse_digits 0 ds = Some n"
    unfolding assms(1) by (rule parse_digits_itoa_nat)
  then have p: "parse_digits 0 (c # cs) = Some n"
    unfolding ds .
  have "- (2 ^ 63) \<le> int n"
    by (rule order_trans [of _ 0]) simp_all
  then show ?thesis
    using assms(2) c p unfolding strconv_Atoi_def ds by (simp del: parse_digits.simps)
qed

lemma strconv_Atoi_minus:
  assumes "0 < n" "int n \<le> 2 ^ 63"
  shows "strconv_Atoi (CHR ''-'' # itoa_nat n) = Inr (word_of_int (- int n))"
  using assms itoa_nat_nonempty [of n] parse_digits_itoa_nat [of n]
  unfolding strconv_Atoi_def by simp

lemma strconv_Atoi_fmt_d: "strconv_Atoi (fmt_d x) = Inr x"
proof (cases "sint x < 0")
  case True
  have "- (2 ^ 63) \<le> sint x"
    using sint_ge [of x] by simp
  then have "0 < nat (- sint x)" "int (nat (- sint x)) \<le> 2 ^ 63"
    using True by auto
  then have "strconv_Atoi (CHR ''-'' # itoa_nat (nat (- sint x))) =
      Inr (word_of_int (- int (nat (- sint x))))"
    by (rule strconv_Atoi_minus)
  moreover have "- int (nat (- sint x)) = sint x"
    using True by simp
  ultimately show ?thesis
    using True by (simp add: fmt_d_def)
next
  case False
  have "sint x < 2 ^ 63"
    using sint_lt [of x] by simp
  then have "int (nat (sint x)) < 2 ^ 63"
    using False by simp
  then have "strconv_Atoi (itoa_nat (nat (sint x))) = Inr (word_of_int (int (nat (sint x))))"
    using strconv_Atoi_digits by blast
  moreover have "int (nat (sint x)) = sint x"
    using False by simp
  ultimately show ?thesis
    using False by (simp add: fmt_d_def)
qed

lemma fmt_d_no_colon: "CHR '':'' \<notin> set (fmt_d x)"
  using itoa_nat_digits is_digit_not_special by (auto simp: fmt_d_def)

lemma strings_Split_colon_nonempty: "strings_Split_colon s \<noteq> []"
  by (induction s) (auto split: list.splits)

lemma strings_Split_colon_none:
  "CHR '':'' \<notin> set xs \<Longrightarrow> strings_Split_colon xs = [xs]"
  by (induction xs) auto

lemma strings_Split_colon_append:
  "CHR '':'' \<notin> set xs \<Longrightarrow>
   strings_Split_colon (xs @ CHR '':'' # ys) = xs # strings_Split_colon ys"
  by (induction xs) auto

lemma strings_Split_Sprintf:
  "strings_Split_colon (Sprintf_0_d_1 x) = [''0'', fmt_d x, ''1'']"
proof -
  have "strings_Split_colon (fmt_d x @ CHR '':'' # ''1'') = [fmt_d x, ''1'']"
    using strings_Split_colon_append [OF fmt_d_no_colon, of x "''1''"]
    by (simp add: strings_Split_colon_none)
  then show ?thesis
    by (simp add: Sprintf_0_d_1_def)
qed

lemma strconv_Atoi_0: "strconv_Atoi ''0'' = Inr 0"
  by (simp add: strconv_Atoi_def is_digit_def digit_val_def)

lemma strconv_Atoi_1: "strconv_Atoi ''1'' = Inr 1"
  by (simp add: strconv_Atoi_def is_digit_def digit_val_def)

lemma idtools_ParseMapping_Sprintf:
  "idtools_ParseMapping (Sprintf_0_d_1 x) =
     Inr \<lparr>ContainerID = 0, HostID = uint32 x, m_Size = 1\<rparr>"
  by (simp add: idtools_ParseMapping_def strings_Split_Sprintf strconv_Atoi_0 strconv_Atoi_1
      strconv_Atoi_fmt_d uint32_def)

section \<open>The runs of \<open>unpackRootfs\<close>\<close>

lemma uint32_of_id:
  "0 \<le> sint u \<Longrightarrow> sint u < 2 ^ 32 \<Longrightarrow> uint (uint32 u) = sint u"
proof -
  assume a: "0 \<le> sint u" "sint u < 2 ^ 32"
  have "sint u < 2 ^ 64"
    using a(2) by (rule less_trans) simp
  then have "take_bit 64 (sint u) = sint u"
    using a(1) by (simp add: take_bit_int_eq_self)
  then have su: "uint u = sint u"
    using uint_sint [of u] by simp
  have "uint (uint32 u) = take_bit 32 (uint u)"
    by (simp add: uint32_def unsigned_ucast_eq)
  also have "\<dots> = sint u"
    using a su by (simp add: take_bit_int_eq_self)
  finally show ?thesis .
qed

lemma calls_initial: "calls (initial f) = []"
  by (simp add: calls_def initial_def)

lemma w_fs_initial: "w_fs (initial f) = f"
  by (simp add: initial_def)

lemma unpackRootfs_mapOptions_eq:
  "unpackRootfs_mapOptions e w =
     (Inr (if namespaces_IsUnprivileged e
           then \<lparr>UIDMappings = [\<lparr>ContainerID = 0, HostID = uint32 (os_Geteuid e), m_Size = 1\<rparr>],
                 GIDMappings = [\<lparr>ContainerID = 0, HostID = uint32 (os_Getegid e), m_Size = 1\<rparr>],
                 Rootless = True\<rparr>
           else zero_MapOptions),
      emits (if namespaces_IsUnprivileged e
             then [sylog_Debugf ''setting umoci rootless mode'' []] else []) w)"
  by (simp add: unpackRootfs_mapOptions_def idtools_ParseMapping_Sprintf zero_MapOptions_def)

lemma fetch_mismatch:
  assumes "GetManifest e = Inr (d, mt)" "mt \<noteq> MediaTypeImageManifest"
  shows "unpackRootfs_fetch e b mo eng w =
     (case NewImageSource e of
        Some err \<Rightarrow>
          (Some (fmt_Errorf ''error creating image source: %s'' [Error err]),
           emit Call_NewImageSource w)
      | None \<Rightarrow>
          (Some (fmt_Errorf ''error verifying manifest media type: %s'' [mt]),
           emit Call_GetManifest (emit Call_NewImageSource w)))"
  using assms by (simp add: unpackRootfs_fetch_def split: option.splits)

lemma run_mapOptions_eq:
  "run_mapOptions e =
     (if namespaces_IsUnprivileged e
      then \<lparr>UIDMappings = [\<lparr>ContainerID = 0, HostID = uint32 (os_Geteuid e), m_Size = 1\<rparr>],
            GIDMappings = [\<lparr>ContainerID = 0, HostID = uint32 (os_Getegid e), m_Size = 1\<rparr>],
            Rootless = True\<rparr>
      else zero_MapOptions)"
  by (simp add: run_mapOptions_def unpackRootfs_mapOptions_eq)

lemma unpackRootfs_mapOptions_run:
  "unpackRootfs_mapOptions e w =
     (Inr (run_mapOptions e),
      emits (if namespaces_IsUnprivileged e
             then [sylog_Debugf ''setting umoci rootless mode'' []] else []) w)"
  by (simp add: run_mapOptions_eq unpackRootfs_mapOptions_eq)

lemma walk_events:
  assumes "\<And>v ev. ev \<in> set (fst (walkFn v)) \<Longrightarrow> P ev"
  shows "ev \<in> set (fst (PermWalkRaiseError vs walkFn)) \<Longrightarrow> P ev"
proof (induction vs)
  case Nil
  then show ?case by simp
next
  case (Cons v vs)
  obtain evs r where w: "walkFn v = (evs, r)" by (cases "walkFn v")
  obtain evs' r' where w': "PermWalkRaiseError vs walkFn = (evs', r')"
    by (cases "PermWalkRaiseError vs walkFn")
  have "ev \<in> set evs \<or> ev \<in> set evs'"
    using Cons.prems w w' by (cases r) auto
  then show ?case
    using assms [of ev v] Cons.IH w w' by auto
qed

lemma walkFn_events:
  "ev \<in> set (fst (checkPerms_walkFn v)) \<Longrightarrow> \<exists>f a. ev = sylog_Debugf f a"
  by (auto simp: checkPerms_walkFn_def split: option.splits if_splits)

lemma checkPerms_events:
  assumes "ev \<in> set (fst (checkPerms en r))"
  shows "ev = Call_PermWalkRaiseError r \<or> (\<exists>f a. ev = sylog_Debugf f a) \<or>
         (\<exists>f a. ev = sylog_Warningf f a)"
proof -
  obtain evs err where w: "PermWalkRaiseError (en r) checkPerms_walkFn = (evs, err)"
    by (cases "PermWalkRaiseError (en r) checkPerms_walkFn")
  have "ev = Call_PermWalkRaiseError r \<or> ev \<in> set evs \<or> ev \<in> set restrictive_warnings"
    using assms w by (auto simp: checkPerms_def split: if_splits)
  moreover have "\<exists>f a. ev = sylog_Debugf f a" if "ev \<in> set evs"
    using walk_events [of checkPerms_walkFn "\<lambda>ev. \<exists>f a. ev = sylog_Debugf f a" ev "en r"]
      walkFn_events that w by auto
  moreover have "\<exists>f a. ev = sylog_Warningf f a" if "ev \<in> set restrictive_warnings"
    using that by (auto simp: restrictive_warnings_def)
  ultimately show ?thesis by blast
qed

lemma checkPerms_calls_walk: "Call_PermWalkRaiseError r \<in> set (fst (checkPerms en r))"
  by (simp add: checkPerms_def split: prod.splits)

lemma world_eq: "w_fs w = w_fs w' \<Longrightarrow> w_hist w = w_hist w' \<Longrightarrow> (w :: world) = w'"
  by simp

lemma post_hist:
  "w_hist (snd (unpackRootfs_post e b w)) =
     w_hist w @ map (\<lambda>ev. (ev, w_fs w)) (post_calls e b (w_fs w))"
  by (simp add: post_calls_def unpackRootfs_post_def Let_def w_hist_emits w_hist_emit
      w_fs_emit w_fs_emits w_fs_initial initial_def comp_def split: prod.splits)


lemma post_calls_eq:
  "post_calls e b g =
     (if FixPerms (Opts b) then
        [sylog_Warningf
           ''The --fix-perms option modifies the filesystem permissions on the resulting container.''
           [],
         sylog_Debugf ''Modifying permissions for file/directory owners'' [],
         Call_FixPerms (RootfsPath b)]
      else if SandboxTarget (Opts b) then
        sylog_Debugf ''Scanning for restrictive permissions'' [] #
        fst (checkPerms (fs_entries e g) (RootfsPath b))
      else [])"
  by (simp add: post_calls_def unpackRootfs_post_def Let_def w_hist_emits w_hist_emit
      w_fs_emit w_fs_emits w_fs_initial initial_def comp_def split: prod.splits)

lemma post_fst:
  "fst (unpackRootfs_post e b w) =
     (if FixPerms (Opts b)
      then map_option External (snd (sytypes_FixPerms e (RootfsPath b) (w_fs w)))
      else if SandboxTarget (Opts b)
      then snd (checkPerms (fs_entries e (w_fs w)) (RootfsPath b))
      else None)"
  by (simp add: unpackRootfs_post_def Let_def w_fs_emits w_fs_emit split: prod.splits)

lemma post_fs:
  "w_fs (snd (unpackRootfs_post e b w)) =
     (if FixPerms (Opts b) then fst (sytypes_FixPerms e (RootfsPath b) (w_fs w)) else w_fs w)"
  by (simp add: unpackRootfs_post_def Let_def w_fs_emits w_fs_emit split: prod.splits)

lemma extract_hist:
  "w_hist (snd (unpackRootfs_extract e b mo eng d w)) =
     w_hist w @
     [(Call_Unmarshal d, w_fs w), (Call_RemoveAll (RootfsPath b), w_fs w),
      (Call_UnpackRootfs eng (RootfsPath b) (run_manifest e d) mo,
       fst (os_RemoveAll e (RootfsPath b) (w_fs w)))] @
     (case umocilayer_UnpackRootfs e eng (RootfsPath b) (run_manifest e d) mo
             (fst (os_RemoveAll e (RootfsPath b) (w_fs w))) of
        (g, Some err) \<Rightarrow> []
      | (g, None) \<Rightarrow> map (\<lambda>ev. (ev, g)) (post_calls e b g))"
  by (simp add: unpackRootfs_extract_def Let_def run_manifest_def w_hist_emit w_fs_emit
      post_hist split: prod.splits option.splits)

lemma extract_fst:
  "fst (unpackRootfs_extract e b mo eng d w) =
     (case umocilayer_UnpackRootfs e eng (RootfsPath b) (run_manifest e d) mo
             (fst (os_RemoveAll e (RootfsPath b) (w_fs w))) of
        (g, Some err) \<Rightarrow> Some (fmt_Errorf ''error unpacking rootfs: %s'' [Error err])
      | (g, None) \<Rightarrow> fst (unpackRootfs_post e b \<lparr>w_fs = g, w_hist = []\<rparr>))"
  by (simp add: unpackRootfs_extract_def Let_def run_manifest_def w_hist_emit w_fs_emit
      post_fst split: prod.splits option.splits)

lemma extract_fs:
  "w_fs (snd (unpackRootfs_extract e b mo eng d w)) =
     (case umocilayer_UnpackRootfs e eng (RootfsPath b) (run_manifest e d) mo
             (fst (os_RemoveAll e (RootfsPath b) (w_fs w))) of
        (g, Some err) \<Rightarrow> g
      | (g, None) \<Rightarrow> w_fs (snd (unpackRootfs_post e b \<lparr>w_fs = g, w_hist = []\<rparr>)))"
  by (simp add: unpackRootfs_extract_def Let_def run_manifest_def w_hist_emit w_fs_emit
      post_fs split: prod.splits option.splits)

lemma prelude_world:
  "emit Call_GetManifest (emit Call_NewImageSource (emit (Call_OpenLayout (TmpDir b))
     (emits (if namespaces_IsUnprivileged e
             then [sylog_Debugf ''setting umoci rootless mode'' []] else [])
        (emit (apexlog_SetLevel (unpackRootfs_loglevel e)) (initial f))))) =
   \<lparr>w_fs = f, w_hist = map (\<lambda>ev. (ev, f)) (prelude_calls e b)\<rparr>"
  by (simp add: prelude_calls_def emit_def initial_def)

lemma run_reaches:
  assumes "umoci_OpenLayout e (TmpDir b) = Inr eng" "NewImageSource e = None"
    "GetManifest e = Inr (d, MediaTypeImageManifest)"
  shows "unpackRootfs e b (initial f) =
     unpackRootfs_extract e b (run_mapOptions e) eng d
       \<lparr>w_fs = f, w_hist = map (\<lambda>ev. (ev, f)) (prelude_calls e b)\<rparr>"
  using assms
  by (simp add: unpackRootfs_def unpackRootfs_fetch_def unpackRootfs_mapOptions_run Let_def
      prelude_world)

lemma run_stops:
  assumes "\<not> (\<exists>eng d. umoci_OpenLayout e (TmpDir b) = Inr eng \<and> NewImageSource e = None \<and>
                GetManifest e = Inr (d, MediaTypeImageManifest))"
  shows "fst (unpackRootfs e b (initial f)) \<noteq> None"
    and "w_fs (snd (unpackRootfs e b (initial f))) = f"
    and "\<forall>x \<in> set (w_hist (snd (unpackRootfs e b (initial f)))).
           fst x \<in> set (prelude_calls e b) \<and> snd x = f"
  using assms
  by (auto simp: unpackRootfs_def unpackRootfs_fetch_def unpackRootfs_mapOptions_run Let_def
      prelude_calls_def w_hist_emit w_fs_emit w_hist_emits w_fs_emits initial_def
      split: sum.splits option.splits if_splits)

lemma prelude_calls_events:
  "ev \<in> set (prelude_calls e b) \<Longrightarrow>
   (\<exists>l. ev = apexlog_SetLevel l) \<or> (\<exists>f a. ev = sylog_Debugf f a) \<or>
   ev = Call_OpenLayout (TmpDir b) \<or> ev = Call_NewImageSource \<or> ev = Call_GetManifest"
  by (auto simp: prelude_calls_def split: if_splits)

lemma post_calls_events:
  "ev \<in> set (post_calls e b g) \<Longrightarrow>
   ev = Call_FixPerms (RootfsPath b) \<or> ev = Call_PermWalkRaiseError (RootfsPath b) \<or>
   (\<exists>f a. ev = sylog_Debugf f a) \<or> (\<exists>f a. ev = sylog_Warningf f a)"
  using checkPerms_events [of ev "fs_entries e g" "RootfsPath b"]
  by (auto simp: post_calls_eq split: if_splits)

text \<open>The history of a run that gets as far as the decoding of the manifest.\<close>

lemma run_reaches_hist:
  assumes "umoci_OpenLayout e (TmpDir b) = Inr eng" "NewImageSource e = None"
    "GetManifest e = Inr (d, MediaTypeImageManifest)"
  shows "w_hist (snd (unpackRootfs e b (initial f))) =
     map (\<lambda>ev. (ev, f)) (prelude_calls e b) @
     [(Call_Unmarshal d, f), (Call_RemoveAll (RootfsPath b), f),
      (Call_UnpackRootfs eng (RootfsPath b) (run_manifest e d) (run_mapOptions e),
       fst (os_RemoveAll e (RootfsPath b) f))] @
     (case umocilayer_UnpackRootfs e eng (RootfsPath b) (run_manifest e d) (run_mapOptions e)
             (fst (os_RemoveAll e (RootfsPath b) f)) of
        (g, Some err) \<Rightarrow> []
      | (g, None) \<Rightarrow> map (\<lambda>ev. (ev, g)) (post_calls e b g))"
  by (simp add: run_reaches [OF assms] extract_hist)

lemma unpack_called:
  assumes "(Call_UnpackRootfs eng p m mo, g) \<in> set (w_hist (snd (unpackRootfs e b (initial f))))"
  shows "\<exists>d. umoci_OpenLayout e (TmpDir b) = Inr eng \<and> NewImageSource e = None \<and>
             GetManifest e = Inr (d, MediaTypeImageManifest) \<and> p = RootfsPath b \<and>
             m = run_manifest e d \<and> mo = run_mapOptions e \<and> g = fst (os_RemoveAll e (RootfsPath b) f)"
proof (cases "\<exists>eng d. umoci_OpenLayout e (TmpDir b) = Inr eng \<and> NewImageSource e = None \<and>
                GetManifest e = Inr (d, MediaTypeImageManifest)")
  case False
  then have "Call_UnpackRootfs eng p m mo \<in> set (prelude_calls e b)"
    using run_stops(3) [of e b f] assms by fastforce
  then show ?thesis
    using prelude_calls_events by blast
next
  case True
  then obtain eng' d where r: "umoci_OpenLayout e (TmpDir b) = Inr eng'" "NewImageSource e = None"
      "GetManifest e = Inr (d, MediaTypeImageManifest)"
    by blast
  have notpre: "Call_UnpackRootfs eng p m mo \<notin> set (prelude_calls e b)"
    using prelude_calls_events by blast
  have notpost: "Call_UnpackRootfs eng p m mo \<notin> set (post_calls e b g')" for g'
    using post_calls_events by blast
  have "(Call_UnpackRootfs eng p m mo, g) =
          (Call_UnpackRootfs eng' (RootfsPath b) (run_manifest e d) (run_mapOptions e),
           fst (os_RemoveAll e (RootfsPath b) f))"
    using assms notpre notpost unfolding run_reaches_hist [OF r]
    by (auto split: prod.splits option.splits)
  then show ?thesis
    using r by auto
qed

section \<open>Normalisation of the manifest\<close>

text \<open>The loop over the indices rewrites every layer once, in place.\<close>

lemma length_layers_loop: "length (layers_loop idx ls) = length ls"
proof (induction idx ls rule: layers_loop.induct)
  case (1 idx ls)
  then show ?case
    by (subst layers_loop.simps) simp
qed

lemma layers_loop_eq:
  "layers_loop idx ls = take idx ls @ map rewrite_layer (drop idx ls)"
proof (induction idx ls rule: layers_loop.induct)
  case (1 idx ls)
  show ?case
  proof (cases "idx < length ls")
    case True
    have "layers_loop idx ls = layers_loop (Suc idx) (ls[idx := rewrite_layer (ls ! idx)])"
      using True by (subst layers_loop.simps) simp
    also have "\<dots> = take (Suc idx) (ls[idx := rewrite_layer (ls ! idx)]) @
                      map rewrite_layer (drop (Suc idx) (ls[idx := rewrite_layer (ls ! idx)]))"
      using "1.IH" True by simp
    also have "\<dots> = take idx ls @ rewrite_layer (ls ! idx) # map rewrite_layer (drop (Suc idx) ls)"
      using True by (simp add: take_Suc_conv_app_nth)
    also have "\<dots> = take idx ls @ map rewrite_layer (drop idx ls)"
      using True by (simp add: Cons_nth_drop_Suc [symmetric])
    finally show ?thesis .
  next
    case False
    then show ?thesis
      by (subst layers_loop.simps) simp
  qed
qed

lemma layers_loop_map: "layers_loop 0 ls = map rewrite_layer ls"
  by (simp add: layers_loop_eq)

lemma rewrite_layer_idem: "rewrite_layer (rewrite_layer d) = rewrite_layer d"
  by (simp add: rewrite_layer_def)

lemma unpackRootfs_normalize_eq:
  "unpackRootfs_normalize m =
     m\<lparr>Config := (Config m)\<lparr>MediaType := MediaTypeImageConfig\<rparr>,
       Layers := map rewrite_layer (Layers m)\<rparr>"
  by (simp add: unpackRootfs_normalize_def Let_def layers_loop_map)

text \<open>
  C5. Normalisation keeps the number of layers; it rewrites a layer of media type
  \<^verbatim>\<open>application/vnd.docker.image.rootfs.diff.tar.gzip\<close> to
  \<^verbatim>\<open>application/vnd.oci.image.layer.v1.tar+gzip\<close> and one of media type
  \<^verbatim>\<open>application/vnd.docker.image.rootfs.diff.tar\<close> to
  \<^verbatim>\<open>application/vnd.oci.image.layer.v1.tar\<close>, changing no other field of the layer;
  it leaves every other layer as it is; of the rest of the manifest it changes only the
  config media type, which it forces to the OCI image-config type; and applying it twice
  gives what applying it once gives.
\<close>

theorem normalize_rewrites_and_is_idempotent:
  "length (Layers (unpackRootfs_normalize m)) = length (Layers m) \<and>
   (\<forall>i < length (Layers m).
      (MediaType (Layers m ! i) = ''application/vnd.docker.image.rootfs.diff.tar.gzip'' \<longrightarrow>
         Layers (unpackRootfs_normalize m) ! i =
           (Layers m ! i)\<lparr>MediaType := ''application/vnd.oci.image.layer.v1.tar+gzip''\<rparr>) \<and>
      (MediaType (Layers m ! i) = ''application/vnd.docker.image.rootfs.diff.tar'' \<longrightarrow>
         Layers (unpackRootfs_normalize m) ! i =
           (Layers m ! i)\<lparr>MediaType := ''application/vnd.oci.image.layer.v1.tar''\<rparr>) \<and>
      (MediaType (Layers m ! i) \<noteq> ''application/vnd.docker.image.rootfs.diff.tar.gzip'' \<and>
       MediaType (Layers m ! i) \<noteq> ''application/vnd.docker.image.rootfs.diff.tar'' \<longrightarrow>
         Layers (unpackRootfs_normalize m) ! i = Layers m ! i)) \<and>
   Config (unpackRootfs_normalize m) = (Config m)\<lparr>MediaType := MediaTypeImageConfig\<rparr> \<and>
   SchemaVersion (unpackRootfs_normalize m) = SchemaVersion m \<and>
   m_Annotations (unpackRootfs_normalize m) = m_Annotations m \<and>
   unpackRootfs_normalize (unpackRootfs_normalize m) = unpackRootfs_normalize m"
  by (simp add: unpackRootfs_normalize_eq rewrite_layer_def rewrite_layer_idem)

theorem normalize_rewrites_and_is_idempotent_witness:
  "map MediaType (Layers example_manifest) =
     [''application/vnd.docker.image.rootfs.diff.tar.gzip'',
      ''application/vnd.docker.image.rootfs.diff.tar'',
      ''application/vnd.oci.image.layer.v1.tar+zstd''] \<and>
   length (Layers (unpackRootfs_normalize example_manifest)) = 3 \<and>
   Layers (unpackRootfs_normalize example_manifest) ! 0 =
     (Layers example_manifest ! 0)\<lparr>MediaType := ''application/vnd.oci.image.layer.v1.tar+gzip''\<rparr> \<and>
   Layers (unpackRootfs_normalize example_manifest) ! 1 =
     (Layers example_manifest ! 1)\<lparr>MediaType := ''application/vnd.oci.image.layer.v1.tar''\<rparr> \<and>
   Layers (unpackRootfs_normalize example_manifest) ! 2 = Layers example_manifest ! 2 \<and>
   unpackRootfs_normalize (unpackRootfs_normalize example_manifest) =
     unpackRootfs_normalize example_manifest"
proof -
  let ?n = "unpackRootfs_normalize example_manifest"
  have len: "length (Layers example_manifest) = 3"
    by (simp add: example_manifest_def)
  note n = normalize_rewrites_and_is_idempotent [of example_manifest]
  have "length (Layers ?n) = 3" using n len by simp
  moreover have "Layers ?n ! 0 =
      (Layers example_manifest ! 0)\<lparr>MediaType := ''application/vnd.oci.image.layer.v1.tar+gzip''\<rparr>"
    using n len by (simp add: example_manifest_def)
  moreover have "Layers ?n ! 1 =
      (Layers example_manifest ! 1)\<lparr>MediaType := ''application/vnd.oci.image.layer.v1.tar''\<rparr>"
    using n len by (simp add: example_manifest_def)
  moreover have "Layers ?n ! 2 = Layers example_manifest ! 2"
    using n len by (simp add: example_manifest_def)
  moreover have "map MediaType (Layers example_manifest) =
     [''application/vnd.docker.image.rootfs.diff.tar.gzip'',
      ''application/vnd.docker.image.rootfs.diff.tar'',
      ''application/vnd.oci.image.layer.v1.tar+zstd'']"
    by (simp add: example_manifest_def)
  ultimately show ?thesis
    using n by blast
qed

section \<open>The pipeline\<close>

lemma fetch_reached:
  assumes "umoci_OpenLayout e (TmpDir b) = Inr eng" "NewImageSource e = None"
  shows "Call_GetManifest \<in> set (calls (snd (unpackRootfs e b (initial f))))"
proof (cases "\<exists>d. GetManifest e = Inr (d, MediaTypeImageManifest)")
  case True
  then obtain d where d: "GetManifest e = Inr (d, MediaTypeImageManifest)" by blast
  show ?thesis
    unfolding calls_def run_reaches_hist [OF assms d] by (simp add: prelude_calls_def)
next
  case False
  then show ?thesis
    using assms
    by (auto simp: unpackRootfs_def unpackRootfs_fetch_def unpackRootfs_mapOptions_run Let_def
        calls_emit split: sum.splits)
qed

text \<open>
  C3. When the manifest fetched reports a media type other than the OCI image-manifest
  type, \<open>unpackRootfs\<close> returns an error, and the error of line 89 whenever the fetch was
  reached; the unpack capability is not invoked, the rootfs path is not removed, the
  permissions are not fixed, and the filesystem is left as it was.
\<close>

theorem manifest_type_checked_before_extraction:
  assumes "GetManifest e = Inr (d, mt)" "mt \<noteq> MediaTypeImageManifest"
  shows "fst (unpackRootfs e b (initial f)) \<noteq> None \<and>
    (Call_GetManifest \<in> set (calls (snd (unpackRootfs e b (initial f)))) \<longrightarrow>
       fst (unpackRootfs e b (initial f)) =
         Some (fmt_Errorf ''error verifying manifest media type: %s'' [mt])) \<and>
    w_fs (snd (unpackRootfs e b (initial f))) = f \<and>
    (\<forall>eng p m mo. Call_UnpackRootfs eng p m mo \<notin> set (calls (snd (unpackRootfs e b (initial f))))) \<and>
    (\<forall>p. Call_RemoveAll p \<notin> set (calls (snd (unpackRootfs e b (initial f))))) \<and>
    (\<forall>p. Call_FixPerms p \<notin> set (calls (snd (unpackRootfs e b (initial f))))) \<and>
    (\<forall>s. Call_Unmarshal s \<notin> set (calls (snd (unpackRootfs e b (initial f)))))"
  by (auto simp: unpackRootfs_def unpackRootfs_mapOptions_eq fetch_mismatch [OF assms] Let_def
      calls_emit w_fs_emit calls_emits w_fs_emits calls_initial w_fs_initial
      split: sum.splits option.splits if_splits)

theorem manifest_type_checked_before_extraction_witness:
  "GetManifest example_env_index =
     Inr (''{\"manifests\":[]}'', ''application/vnd.oci.image.index.v1+json'') \<and>
   ''application/vnd.oci.image.index.v1+json'' \<noteq> MediaTypeImageManifest \<and>
   fst (unpackRootfs example_env_index example_bundle (initial example_fs)) =
     Some (fmt_Errorf ''error verifying manifest media type: %s''
             [''application/vnd.oci.image.index.v1+json'']) \<and>
   w_fs (snd (unpackRootfs example_env_index example_bundle (initial example_fs))) = example_fs"
proof -
  have g: "GetManifest example_env_index =
     Inr (''{\"manifests\":[]}'', ''application/vnd.oci.image.index.v1+json'')"
    by (simp add: example_env_index_def)
  have n: "''application/vnd.oci.image.index.v1+json'' \<noteq> MediaTypeImageManifest"
    by (simp add: MediaTypeImageManifest_def)
  have "umoci_OpenLayout example_env_index (TmpDir example_bundle) =
          Inr (Engine (TmpDir example_bundle))"
    "NewImageSource example_env_index = None"
    by (simp_all add: example_env_index_def example_env_def)
  then have r: "Call_GetManifest \<in>
      set (calls (snd (unpackRootfs example_env_index example_bundle (initial example_fs))))"
    by (rule fetch_reached)
  show ?thesis
    using manifest_type_checked_before_extraction [OF g n, of example_bundle example_fs] g n r
    by simp
qed

text \<open>
  Whenever a run invokes the unpack capability, it does so on the rootfs path of the
  bundle, the call just before is the removal of that path, and the filesystem the
  capability is invoked on is the one that the removal left, whether or not the removal
  returned an error.
\<close>

lemma unpack_follows_removal:
  assumes "(Call_UnpackRootfs eng p m mo, g) \<in> set (w_hist (snd (unpackRootfs e b (initial f))))"
  shows "p = RootfsPath b \<and> g = fst (os_RemoveAll e (RootfsPath b) f) \<and>
    (\<exists>pre post. calls (snd (unpackRootfs e b (initial f))) =
       pre @ [Call_RemoveAll (RootfsPath b), Call_UnpackRootfs eng p m mo] @ post)"
proof -
  obtain d where r: "umoci_OpenLayout e (TmpDir b) = Inr eng" "NewImageSource e = None"
      "GetManifest e = Inr (d, MediaTypeImageManifest)"
    and v: "p = RootfsPath b" "m = run_manifest e d" "mo = run_mapOptions e"
      "g = fst (os_RemoveAll e (RootfsPath b) f)"
    using unpack_called [OF assms] by blast
  have "calls (snd (unpackRootfs e b (initial f))) =
      (prelude_calls e b @ [Call_Unmarshal d]) @
      [Call_RemoveAll (RootfsPath b), Call_UnpackRootfs eng p m mo] @
      map fst (case umocilayer_UnpackRootfs e eng (RootfsPath b) (run_manifest e d)
                      (run_mapOptions e) (fst (os_RemoveAll e (RootfsPath b) f)) of
                 (g, Some err) \<Rightarrow> []
               | (g, None) \<Rightarrow> map (\<lambda>ev. (ev, g)) (post_calls e b g))"
    unfolding calls_def run_reaches_hist [OF r] v by (simp add: comp_def)
  then have "\<exists>pre post. calls (snd (unpackRootfs e b (initial f))) =
       pre @ [Call_RemoveAll (RootfsPath b), Call_UnpackRootfs eng p m mo] @ post"
    by blast
  then show ?thesis
    using v by simp
qed

text \<open>The error that the removal returns has no part in what \<open>unpackRootfs\<close> does.\<close>

lemma unpackRootfs_ignores_removal_error:
  "unpackRootfs (e\<lparr>os_RemoveAll := \<lambda>p g. (fst (os_RemoveAll e p g), x p g)\<rparr>) b w =
   unpackRootfs e b w"
proof -
  let ?e = "e\<lparr>os_RemoveAll := \<lambda>p g. (fst (os_RemoveAll e p g), x p g)\<rparr>"
  have l: "unpackRootfs_loglevel ?e = unpackRootfs_loglevel e"
    by (simp add: unpackRootfs_loglevel_def)
  have o: "unpackRootfs_mapOptions ?e v = unpackRootfs_mapOptions e v" for v
    by (simp add: unpackRootfs_mapOptions_eq)
  have p: "unpackRootfs_post ?e b v = unpackRootfs_post e b v" for v
    by (simp add: unpackRootfs_post_def)
  have x: "unpackRootfs_extract ?e b mo eng d v = unpackRootfs_extract e b mo eng d v"
    for mo eng d v
    by (simp add: unpackRootfs_extract_def p Let_def split: prod.splits option.splits)
  have f: "unpackRootfs_fetch ?e b mo eng v = unpackRootfs_fetch e b mo eng v" for mo eng v
    by (simp add: unpackRootfs_fetch_def x Let_def split: option.splits sum.splits)
  show ?thesis
    by (simp add: unpackRootfs_def l o f Let_def split: prod.splits sum.splits)
qed

lemma example_reaches:
  "umoci_OpenLayout example_env (TmpDir example_bundle) = Inr (Engine ''/tmp/build/oci'')"
  "NewImageSource example_env = None"
  "GetManifest example_env = Inr (''{\"schemaVersion\":2}'', MediaTypeImageManifest)"
  by (simp_all add: example_env_def example_bundle_def)

lemma example_removal:
  "fst (os_RemoveAll example_env ''/tmp/build/rootfs'' example_fs) = example_removed"
  "fst (os_RemoveAll example_env_malformed ''/tmp/build/rootfs'' example_fs) = example_removed"
  by (simp_all add: example_env_def example_env_malformed_def example_removed_def)

text \<open>
  C8, at a rootfs path that cannot be removed. The bundle's rootfs path holds a
  directory of mode 0500 with a file in it, left by an earlier build; the user is not
  root, so \<^verbatim>\<open>os.RemoveAll\<close> removes nothing and returns a permission error. Line 105
  does not read that error: the next call is the unpack, on the same rootfs path, and the
  filesystem it is invoked on still holds the old directory and the old file.
\<close>

theorem unremoved_rootfs_is_unpacked_over:
  "os_RemoveAll example_env_unremovable ''/tmp/build/rootfs'' example_fs_restrictive =
     (example_fs_restrictive, Some EACCES) \<and>
   take (length (prelude_calls example_env_unremovable example_bundle) + 3)
     (w_hist (snd (unpackRootfs example_env_unremovable example_bundle
                     (initial example_fs_restrictive)))) =
     map (\<lambda>ev. (ev, example_fs_restrictive))
       (prelude_calls example_env_unremovable example_bundle @
        [Call_Unmarshal ''{\"schemaVersion\":2}'',
         Call_RemoveAll ''/tmp/build/rootfs'',
         Call_UnpackRootfs (Engine ''/tmp/build/oci'') ''/tmp/build/rootfs''
           (run_manifest example_env_unremovable ''{\"schemaVersion\":2}'')
           (run_mapOptions example_env_unremovable)]) \<and>
   example_fs_restrictive ''/tmp/build/rootfs'' =
     Some \<lparr>i_mode = 0x800001ED, i_content = []\<rparr> \<and>
   example_fs_restrictive ''/tmp/build/rootfs/ro'' =
     Some \<lparr>i_mode = 0x80000140, i_content = []\<rparr> \<and>
   example_fs_restrictive ''/tmp/build/rootfs/ro/old'' =
     Some \<lparr>i_mode = 0x1A4, i_content = ''left over''\<rparr>"
proof -
  let ?e = example_env_unremovable and ?b = example_bundle
  have r: "umoci_OpenLayout ?e (TmpDir ?b) = Inr (Engine ''/tmp/build/oci'')"
    "NewImageSource ?e = None"
    "GetManifest ?e = Inr (''{\"schemaVersion\":2}'', MediaTypeImageManifest)"
    by (simp_all add: example_env_unremovable_def example_env_def example_bundle_def)
  have p: "RootfsPath ?b = ''/tmp/build/rootfs''"
    by (simp add: example_bundle_def)
  have o: "os_RemoveAll ?e ''/tmp/build/rootfs'' example_fs_restrictive =
      (example_fs_restrictive, Some EACCES)"
    by (simp add: example_env_unremovable_def)
  have "take (length (prelude_calls ?e ?b) + 3)
      (w_hist (snd (unpackRootfs ?e ?b (initial example_fs_restrictive)))) =
     map (\<lambda>ev. (ev, example_fs_restrictive))
       (prelude_calls ?e ?b @
        [Call_Unmarshal ''{\"schemaVersion\":2}'',
         Call_RemoveAll ''/tmp/build/rootfs'',
         Call_UnpackRootfs (Engine ''/tmp/build/oci'') ''/tmp/build/rootfs''
           (run_manifest ?e ''{\"schemaVersion\":2}'') (run_mapOptions ?e)])"
    unfolding run_reaches_hist [OF r] p o by simp
  moreover have "example_fs_restrictive ''/tmp/build/rootfs'' =
      Some \<lparr>i_mode = 0x800001ED, i_content = []\<rparr>"
    "example_fs_restrictive ''/tmp/build/rootfs/ro'' =
      Some \<lparr>i_mode = 0x80000140, i_content = []\<rparr>"
    "example_fs_restrictive ''/tmp/build/rootfs/ro/old'' =
      Some \<lparr>i_mode = 0x1A4, i_content = ''left over''\<rparr>"
    by (simp_all add: example_fs_restrictive_def)
  ultimately show ?thesis
    using o by blast
qed

text \<open>
  C4. For an unprivileged process the mapping options built by \<open>unpackRootfs\<close> are
  rootless, with exactly one UID mapping (container 0, the effective UID, count 1) and
  exactly one GID mapping (container 0, the effective GID, count 1); for a privileged one
  they are not rootless and both lists are empty. The host ID is the effective ID
  converted to \<^verbatim>\<open>uint32\<close>, which is the ID itself for an ID of 32 bits. These are the
  options handed to the unpack capability.
\<close>

theorem mapping_options_by_privilege:
  "(namespaces_IsUnprivileged e \<longrightarrow>
      fst (unpackRootfs_mapOptions e w) =
        Inr \<lparr>UIDMappings = [\<lparr>ContainerID = 0, HostID = uint32 (os_Geteuid e), m_Size = 1\<rparr>],
             GIDMappings = [\<lparr>ContainerID = 0, HostID = uint32 (os_Getegid e), m_Size = 1\<rparr>],
             Rootless = True\<rparr>) \<and>
   (\<not> namespaces_IsUnprivileged e \<longrightarrow>
      fst (unpackRootfs_mapOptions e w) =
        Inr \<lparr>UIDMappings = [], GIDMappings = [], Rootless = False\<rparr>) \<and>
   (0 \<le> sint (os_Geteuid e) \<and> sint (os_Geteuid e) < 2 ^ 32 \<longrightarrow>
      uint (uint32 (os_Geteuid e)) = sint (os_Geteuid e)) \<and>
   (0 \<le> sint (os_Getegid e) \<and> sint (os_Getegid e) < 2 ^ 32 \<longrightarrow>
      uint (uint32 (os_Getegid e)) = sint (os_Getegid e)) \<and>
   (\<forall>eng p m mo g.
      (Call_UnpackRootfs eng p m mo, g) \<in> set (w_hist (snd (unpackRootfs e b (initial f)))) \<longrightarrow>
      fst (unpackRootfs_mapOptions e w) = Inr mo)"
proof -
  have "fst (unpackRootfs_mapOptions e w) = Inr mo"
    if "(Call_UnpackRootfs eng p m mo, g) \<in> set (w_hist (snd (unpackRootfs e b (initial f))))"
    for eng p m mo g
    using unpack_called [OF that] by (auto simp: unpackRootfs_mapOptions_run)
  then show ?thesis
    by (simp add: unpackRootfs_mapOptions_eq zero_MapOptions_def uint32_of_id)
qed

theorem mapping_options_by_privilege_witness:
  "namespaces_IsUnprivileged example_env \<and>
   fst (unpackRootfs_mapOptions example_env (initial example_fs)) =
     Inr \<lparr>UIDMappings = [\<lparr>ContainerID = 0, HostID = 1000, m_Size = 1\<rparr>],
          GIDMappings = [\<lparr>ContainerID = 0, HostID = 100, m_Size = 1\<rparr>],
          Rootless = True\<rparr> \<and>
   \<not> namespaces_IsUnprivileged (example_env\<lparr>namespaces_IsUnprivileged := False\<rparr>) \<and>
   fst (unpackRootfs_mapOptions (example_env\<lparr>namespaces_IsUnprivileged := False\<rparr>)
          (initial example_fs)) =
     Inr \<lparr>UIDMappings = [], GIDMappings = [], Rootless = False\<rparr> \<and>
   0 \<le> sint (os_Geteuid example_env) \<and> sint (os_Geteuid example_env) < 2 ^ 32 \<and>
   uint (uint32 (os_Geteuid example_env)) = 1000 \<and>
   0 \<le> sint (os_Getegid example_env) \<and> sint (os_Getegid example_env) < 2 ^ 32 \<and>
   uint (uint32 (os_Getegid example_env)) = 100 \<and>
   (Call_UnpackRootfs (Engine ''/tmp/build/oci'') ''/tmp/build/rootfs''
      (run_manifest example_env ''{\"schemaVersion\":2}'')
      \<lparr>UIDMappings = [\<lparr>ContainerID = 0, HostID = 1000, m_Size = 1\<rparr>],
       GIDMappings = [\<lparr>ContainerID = 0, HostID = 100, m_Size = 1\<rparr>],
       Rootless = True\<rparr>,
    example_removed)
     \<in> set (w_hist (snd (unpackRootfs example_env example_bundle (initial example_fs))))"
proof -
  have u: "namespaces_IsUnprivileged example_env"
    "\<not> namespaces_IsUnprivileged (example_env\<lparr>namespaces_IsUnprivileged := False\<rparr>)"
    by (simp_all add: example_env_def)
  have i: "sint (os_Geteuid example_env) = 1000" "sint (os_Getegid example_env) = 100"
    by (simp_all add: example_env_def)
  have h: "(Call_UnpackRootfs (Engine ''/tmp/build/oci'') ''/tmp/build/rootfs''
      (run_manifest example_env ''{\"schemaVersion\":2}'') (run_mapOptions example_env),
    example_removed)
     \<in> set (w_hist (snd (unpackRootfs example_env example_bundle (initial example_fs))))"
    unfolding run_reaches_hist [OF example_reaches]
    by (simp add: example_bundle_def example_removal)
  note t = mapping_options_by_privilege
      [of example_env "initial example_fs" example_bundle example_fs]
  note t' = mapping_options_by_privilege
      [of "example_env\<lparr>namespaces_IsUnprivileged := False\<rparr>" "initial example_fs"]
  have o: "fst (unpackRootfs_mapOptions example_env (initial example_fs)) =
     Inr \<lparr>UIDMappings = [\<lparr>ContainerID = 0, HostID = 1000, m_Size = 1\<rparr>],
          GIDMappings = [\<lparr>ContainerID = 0, HostID = 100, m_Size = 1\<rparr>],
          Rootless = True\<rparr>"
    using t u(1) by (simp add: example_env_def uint32_def)
  have "fst (unpackRootfs_mapOptions example_env (initial example_fs)) =
          Inr (run_mapOptions example_env)"
    using t h by blast
  then have m: "run_mapOptions example_env =
     \<lparr>UIDMappings = [\<lparr>ContainerID = 0, HostID = 1000, m_Size = 1\<rparr>],
      GIDMappings = [\<lparr>ContainerID = 0, HostID = 100, m_Size = 1\<rparr>],
      Rootless = True\<rparr>"
    using o by simp
  have "uint (uint32 (os_Geteuid example_env)) = 1000"
    "uint (uint32 (os_Getegid example_env)) = 100"
    using t i by simp_all
  moreover have "fst (unpackRootfs_mapOptions (example_env\<lparr>namespaces_IsUnprivileged := False\<rparr>)
          (initial example_fs)) =
     Inr \<lparr>UIDMappings = [], GIDMappings = [], Rootless = False\<rparr>"
    using t' u(2) by blast
  ultimately show ?thesis
    using u i o h m by simp
qed

lemma run_calls_cases:
  assumes "ev \<in> set (calls (snd (unpackRootfs e b (initial f))))"
  shows "ev \<in> set (prelude_calls e b) \<or> (\<exists>d. ev = Call_Unmarshal d) \<or>
         ev = Call_RemoveAll (RootfsPath b) \<or>
         (\<exists>eng m mo. ev = Call_UnpackRootfs eng (RootfsPath b) m mo) \<or>
         (\<exists>eng p m mo g g'.
            (Call_UnpackRootfs eng p m mo, g) \<in> set (w_hist (snd (unpackRootfs e b (initial f)))) \<and>
            umocilayer_UnpackRootfs e eng p m mo g = (g', None) \<and> ev \<in> set (post_calls e b g'))"
proof (cases "\<exists>eng d. umoci_OpenLayout e (TmpDir b) = Inr eng \<and> NewImageSource e = None \<and>
                GetManifest e = Inr (d, MediaTypeImageManifest)")
  case False
  then show ?thesis
    using run_stops(3) [of e b f] assms by (fastforce simp: calls_def)
next
  case True
  then obtain eng d where r: "umoci_OpenLayout e (TmpDir b) = Inr eng" "NewImageSource e = None"
      "GetManifest e = Inr (d, MediaTypeImageManifest)"
    by blast
  let ?u = "umocilayer_UnpackRootfs e eng (RootfsPath b) (run_manifest e d) (run_mapOptions e)
              (fst (os_RemoveAll e (RootfsPath b) f))"
  have h: "(Call_UnpackRootfs eng (RootfsPath b) (run_manifest e d) (run_mapOptions e),
            fst (os_RemoveAll e (RootfsPath b) f)) \<in> set (w_hist (snd (unpackRootfs e b (initial f))))"
    unfolding run_reaches_hist [OF r] by simp
  obtain g' res where u: "?u = (g', res)" by (cases ?u)
  show ?thesis
  proof (cases res)
    case None
    then have "ev \<in> set (prelude_calls e b) \<or> ev = Call_Unmarshal d \<or>
        ev = Call_RemoveAll (RootfsPath b) \<or>
        ev = Call_UnpackRootfs eng (RootfsPath b) (run_manifest e d) (run_mapOptions e) \<or>
        ev \<in> set (post_calls e b g')"
      using assms u unfolding calls_def run_reaches_hist [OF r] by (auto simp: comp_def)
    then show ?thesis
      using h u None by blast
  next
    case (Some err)
    then have "ev \<in> set (prelude_calls e b) \<or> ev = Call_Unmarshal d \<or>
        ev = Call_RemoveAll (RootfsPath b) \<or>
        ev = Call_UnpackRootfs eng (RootfsPath b) (run_manifest e d) (run_mapOptions e)"
      using assms u unfolding calls_def run_reaches_hist [OF r] by (auto simp: comp_def)
    then show ?thesis
      by blast
  qed
qed

lemma run_after_unpack:
  assumes "(Call_UnpackRootfs eng p m mo, g) \<in> set (w_hist (snd (unpackRootfs e b (initial f))))"
    and "umocilayer_UnpackRootfs e eng p m mo g = (g', None)"
  shows "fst (unpackRootfs e b (initial f)) = fst (unpackRootfs_post e b (initial g'))"
    and "w_fs (snd (unpackRootfs e b (initial f))) = w_fs (snd (unpackRootfs_post e b (initial g')))"
    and "set (post_calls e b g') \<subseteq> set (calls (snd (unpackRootfs e b (initial f))))"
    and "\<exists>pre. calls (snd (unpackRootfs e b (initial f))) =
           pre @ Call_UnpackRootfs eng p m mo # post_calls e b g'"
proof -
  obtain d where r: "umoci_OpenLayout e (TmpDir b) = Inr eng" "NewImageSource e = None"
      "GetManifest e = Inr (d, MediaTypeImageManifest)"
    and v: "p = RootfsPath b" "m = run_manifest e d" "mo = run_mapOptions e"
      "g = fst (os_RemoveAll e (RootfsPath b) f)"
    using unpack_called [OF assms(1)] by blast
  have u: "umocilayer_UnpackRootfs e eng (RootfsPath b) (run_manifest e d) (run_mapOptions e)
             (fst (os_RemoveAll e (RootfsPath b) f)) = (g', None)"
    using assms(2) v by simp
  show "fst (unpackRootfs e b (initial f)) = fst (unpackRootfs_post e b (initial g'))"
    unfolding run_reaches [OF r] by (simp add: extract_fst u initial_def)
  show "w_fs (snd (unpackRootfs e b (initial f))) = w_fs (snd (unpackRootfs_post e b (initial g')))"
    unfolding run_reaches [OF r] by (simp add: extract_fs u initial_def)
  have c: "calls (snd (unpackRootfs e b (initial f))) =
      (prelude_calls e b @ [Call_Unmarshal d, Call_RemoveAll (RootfsPath b)]) @
      Call_UnpackRootfs eng p m mo # post_calls e b g'"
    unfolding calls_def run_reaches_hist [OF r] by (simp add: u v comp_def)
  then show "set (post_calls e b g') \<subseteq> set (calls (snd (unpackRootfs e b (initial f))))"
    by auto
  show "\<exists>pre. calls (snd (unpackRootfs e b (initial f))) =
           pre @ Call_UnpackRootfs eng p m mo # post_calls e b g'"
    using c by blast
qed


text \<open>
  C6. After a successful unpack: with \<open>FixPerms\<close> set (whether or not \<open>SandboxTarget\<close> is
  set) the run calls the recursive permission fix and returns its result; with
  \<open>FixPerms\<close> unset and \<open>SandboxTarget\<close> set it runs the scanner and returns its result;
  with both unset it calls nothing more and returns nil. In every run, the scanner is
  invoked only when \<open>FixPerms\<close> is unset and \<open>SandboxTarget\<close> is set, and the permission
  fix only when \<open>FixPerms\<close> is set.
\<close>

theorem post_processing_by_option:
  "((Call_UnpackRootfs eng p m mo, g) \<in> set (w_hist (snd (unpackRootfs e b (initial f)))) \<and>
    umocilayer_UnpackRootfs e eng p m mo g = (g', None) \<longrightarrow>
      (FixPerms (Opts b) \<longrightarrow>
         fst (unpackRootfs e b (initial f)) =
           map_option External (snd (sytypes_FixPerms e (RootfsPath b) g')) \<and>
         w_fs (snd (unpackRootfs e b (initial f))) = fst (sytypes_FixPerms e (RootfsPath b) g') \<and>
         Call_FixPerms (RootfsPath b) \<in> set (calls (snd (unpackRootfs e b (initial f))))) \<and>
      (\<not> FixPerms (Opts b) \<and> SandboxTarget (Opts b) \<longrightarrow>
         fst (unpackRootfs e b (initial f)) =
           snd (checkPerms (fs_entries e g') (RootfsPath b)) \<and>
         w_fs (snd (unpackRootfs e b (initial f))) = g' \<and>
         Call_PermWalkRaiseError (RootfsPath b)
           \<in> set (calls (snd (unpackRootfs e b (initial f))))) \<and>
      (\<not> FixPerms (Opts b) \<and> \<not> SandboxTarget (Opts b) \<longrightarrow>
         fst (unpackRootfs e b (initial f)) = None \<and>
         w_fs (snd (unpackRootfs e b (initial f))) = g' \<and>
         last (calls (snd (unpackRootfs e b (initial f)))) = Call_UnpackRootfs eng p m mo)) \<and>
   (\<forall>r. Call_PermWalkRaiseError r \<in> set (calls (snd (unpackRootfs e b (initial f)))) \<longrightarrow>
        \<not> FixPerms (Opts b) \<and> SandboxTarget (Opts b)) \<and>
   (\<forall>r. Call_FixPerms r \<in> set (calls (snd (unpackRootfs e b (initial f)))) \<longrightarrow>
        FixPerms (Opts b))"
proof -
  have after: "(FixPerms (Opts b) \<longrightarrow>
         fst (unpackRootfs e b (initial f)) =
           map_option External (snd (sytypes_FixPerms e (RootfsPath b) g')) \<and>
         w_fs (snd (unpackRootfs e b (initial f))) = fst (sytypes_FixPerms e (RootfsPath b) g') \<and>
         Call_FixPerms (RootfsPath b) \<in> set (calls (snd (unpackRootfs e b (initial f))))) \<and>
      (\<not> FixPerms (Opts b) \<and> SandboxTarget (Opts b) \<longrightarrow>
         fst (unpackRootfs e b (initial f)) =
           snd (checkPerms (fs_entries e g') (RootfsPath b)) \<and>
         w_fs (snd (unpackRootfs e b (initial f))) = g' \<and>
         Call_PermWalkRaiseError (RootfsPath b)
           \<in> set (calls (snd (unpackRootfs e b (initial f))))) \<and>
      (\<not> FixPerms (Opts b) \<and> \<not> SandboxTarget (Opts b) \<longrightarrow>
         fst (unpackRootfs e b (initial f)) = None \<and>
         w_fs (snd (unpackRootfs e b (initial f))) = g' \<and>
         last (calls (snd (unpackRootfs e b (initial f)))) = Call_UnpackRootfs eng p m mo)"
    if h: "(Call_UnpackRootfs eng p m mo, g) \<in> set (w_hist (snd (unpackRootfs e b (initial f))))"
      and u: "umocilayer_UnpackRootfs e eng p m mo g = (g', None)"
  proof -
    note a = run_after_unpack [OF h u]
    obtain pre where c: "calls (snd (unpackRootfs e b (initial f))) =
           pre @ Call_UnpackRootfs eng p m mo # post_calls e b g'"
      using a(4) by blast
    have fx: "Call_FixPerms (RootfsPath b) \<in> set (calls (snd (unpackRootfs e b (initial f))))"
      if "FixPerms (Opts b)"
      using a(3) that by (auto simp: post_calls_eq)
    have scan: "Call_PermWalkRaiseError (RootfsPath b)
           \<in> set (calls (snd (unpackRootfs e b (initial f))))"
      if "\<not> FixPerms (Opts b)" "SandboxTarget (Opts b)"
      using a(3) that checkPerms_calls_walk [of "RootfsPath b" "fs_entries e g'"]
      by (auto simp: post_calls_eq)
    have none: "last (calls (snd (unpackRootfs e b (initial f)))) = Call_UnpackRootfs eng p m mo"
      if "\<not> FixPerms (Opts b)" "\<not> SandboxTarget (Opts b)"
      using that unfolding c by (simp add: post_calls_eq)
    show ?thesis
      using fx scan none by (simp add: a(1) a(2) post_fst post_fs w_fs_initial)
  qed
  have scan_only: "\<not> FixPerms (Opts b) \<and> SandboxTarget (Opts b)"
    if "Call_PermWalkRaiseError r \<in> set (calls (snd (unpackRootfs e b (initial f))))" for r
  proof -
    have "\<exists>g'. Call_PermWalkRaiseError r \<in> set (post_calls e b g')"
      using run_calls_cases [OF that] prelude_calls_events [of "Call_PermWalkRaiseError r" e b]
      by auto
    then show ?thesis
      by (auto simp: post_calls_eq split: if_splits)
  qed
  have fix_only: "FixPerms (Opts b)"
    if "Call_FixPerms r \<in> set (calls (snd (unpackRootfs e b (initial f))))" for r
  proof -
    have "\<exists>g'. Call_FixPerms r \<in> set (post_calls e b g')"
      using run_calls_cases [OF that] prelude_calls_events [of "Call_FixPerms r" e b]
      by auto
    then obtain g' where "Call_FixPerms r \<in> set (post_calls e b g')" by blast
    then show ?thesis
      using checkPerms_events [of "Call_FixPerms r" "fs_entries e g'" "RootfsPath b"]
      by (auto simp: post_calls_eq split: if_splits)
  qed
  show ?thesis
    using after scan_only fix_only by blast
qed

lemma example_unpack_called:
  assumes "TmpDir b = ''/tmp/build/oci''" "RootfsPath b = ''/tmp/build/rootfs''"
  shows "(Call_UnpackRootfs (Engine ''/tmp/build/oci'') ''/tmp/build/rootfs''
            (run_manifest example_env ''{\"schemaVersion\":2}'') (run_mapOptions example_env),
          example_removed)
           \<in> set (w_hist (snd (unpackRootfs example_env b (initial example_fs))))"
proof -
  have r: "umoci_OpenLayout example_env (TmpDir b) = Inr (Engine ''/tmp/build/oci'')"
    "NewImageSource example_env = None"
    "GetManifest example_env = Inr (''{\"schemaVersion\":2}'', MediaTypeImageManifest)"
    using assms by (simp_all add: example_env_def)
  show ?thesis
    unfolding run_reaches_hist [OF r] by (simp add: assms example_removal)
qed

lemma example_unpack_result:
  "umocilayer_UnpackRootfs example_env eng ''/tmp/build/rootfs'' m mo
     example_removed = (example_unpacked, None)"
  by (simp add: example_env_def example_unpacked_def)

theorem post_processing_by_option_witness:
  "(Call_UnpackRootfs (Engine ''/tmp/build/oci'') ''/tmp/build/rootfs''
      (run_manifest example_env ''{\"schemaVersion\":2}'') (run_mapOptions example_env),
    example_removed)
     \<in> set (w_hist (snd (unpackRootfs example_env example_bundle_fixperms (initial example_fs)))) \<and>
   umocilayer_UnpackRootfs example_env (Engine ''/tmp/build/oci'') ''/tmp/build/rootfs''
      (run_manifest example_env ''{\"schemaVersion\":2}'') (run_mapOptions example_env)
      example_removed = (example_unpacked, None) \<and>
   FixPerms (Opts example_bundle_fixperms) \<and> SandboxTarget (Opts example_bundle_fixperms) \<and>
   fst (unpackRootfs example_env example_bundle_fixperms (initial example_fs)) = None \<and>
   Call_FixPerms ''/tmp/build/rootfs''
     \<in> set (calls (snd (unpackRootfs example_env example_bundle_fixperms (initial example_fs)))) \<and>
   Call_PermWalkRaiseError ''/tmp/build/rootfs''
     \<notin> set (calls (snd (unpackRootfs example_env example_bundle_fixperms (initial example_fs)))) \<and>
   \<not> FixPerms (Opts example_bundle) \<and> SandboxTarget (Opts example_bundle) \<and>
   Call_PermWalkRaiseError ''/tmp/build/rootfs''
     \<in> set (calls (snd (unpackRootfs example_env example_bundle (initial example_fs)))) \<and>
   fst (unpackRootfs example_env example_bundle (initial example_fs)) = None \<and>
   \<not> FixPerms (Opts example_bundle_plain) \<and> \<not> SandboxTarget (Opts example_bundle_plain) \<and>
   fst (unpackRootfs example_env example_bundle_plain (initial example_fs)) = None \<and>
   w_fs (snd (unpackRootfs example_env example_bundle_plain (initial example_fs))) =
     example_unpacked"
proof -
  let ?E = "Engine ''/tmp/build/oci''"
  let ?M = "run_manifest example_env ''{\"schemaVersion\":2}''"
  let ?MO = "run_mapOptions example_env"
  let ?G = "example_removed"
  have o: "FixPerms (Opts example_bundle_fixperms)" "SandboxTarget (Opts example_bundle_fixperms)"
    "\<not> FixPerms (Opts example_bundle)" "SandboxTarget (Opts example_bundle)"
    "\<not> FixPerms (Opts example_bundle_plain)" "\<not> SandboxTarget (Opts example_bundle_plain)"
    by (simp_all add: example_bundle_fixperms_def example_bundle_plain_def example_bundle_def)
  have p: "RootfsPath example_bundle_fixperms = ''/tmp/build/rootfs''"
    "RootfsPath example_bundle = ''/tmp/build/rootfs''"
    "RootfsPath example_bundle_plain = ''/tmp/build/rootfs''"
    by (simp_all add: example_bundle_fixperms_def example_bundle_plain_def example_bundle_def)
  have h1: "(Call_UnpackRootfs ?E ''/tmp/build/rootfs'' ?M ?MO, ?G)
     \<in> set (w_hist (snd (unpackRootfs example_env example_bundle_fixperms (initial example_fs))))"
    by (rule example_unpack_called)
      (simp_all add: example_bundle_fixperms_def example_bundle_def)
  have h2: "(Call_UnpackRootfs ?E ''/tmp/build/rootfs'' ?M ?MO, ?G)
     \<in> set (w_hist (snd (unpackRootfs example_env example_bundle (initial example_fs))))"
    by (rule example_unpack_called) (simp_all add: example_bundle_def)
  have h3: "(Call_UnpackRootfs ?E ''/tmp/build/rootfs'' ?M ?MO, ?G)
     \<in> set (w_hist (snd (unpackRootfs example_env example_bundle_plain (initial example_fs))))"
    by (rule example_unpack_called)
      (simp_all add: example_bundle_plain_def example_bundle_def)
  note u = example_unpack_result [of ?E ?M ?MO]
  note t1 = post_processing_by_option [of ?E "''/tmp/build/rootfs''" ?M ?MO ?G example_env
      example_bundle_fixperms example_fs example_unpacked]
  note t2 = post_processing_by_option [of ?E "''/tmp/build/rootfs''" ?M ?MO ?G example_env
      example_bundle example_fs example_unpacked]
  note t3 = post_processing_by_option [of ?E "''/tmp/build/rootfs''" ?M ?MO ?G example_env
      example_bundle_plain example_fs example_unpacked]
  have f: "snd (sytypes_FixPerms example_env ''/tmp/build/rootfs'' example_unpacked) = None"
    by (simp add: example_env_def)
  have a1: "fst (unpackRootfs example_env example_bundle_fixperms (initial example_fs)) = None"
    using t1 h1 u o(1) p(1) f by simp
  have a2: "Call_FixPerms ''/tmp/build/rootfs''
     \<in> set (calls (snd (unpackRootfs example_env example_bundle_fixperms (initial example_fs))))"
    using t1 h1 u o(1) p(1) by simp
  have a3: "Call_PermWalkRaiseError ''/tmp/build/rootfs''
     \<notin> set (calls (snd (unpackRootfs example_env example_bundle_fixperms (initial example_fs))))"
    using t1 o(1) by blast
  have b1: "Call_PermWalkRaiseError ''/tmp/build/rootfs''
     \<in> set (calls (snd (unpackRootfs example_env example_bundle (initial example_fs))))"
    using t2 h2 u o(3,4) p(2) by simp
  have "fs_entries example_env example_unpacked = example_entries"
    by (simp add: example_env_def)
  then have b2: "fst (unpackRootfs example_env example_bundle (initial example_fs)) = None"
    using t2 h2 u o(3,4) p(2) walk_example_entries [of "''/tmp/build/rootfs''"]
    by (simp add: snd_checkPerms)
  have c1: "fst (unpackRootfs example_env example_bundle_plain (initial example_fs)) = None"
    "w_fs (snd (unpackRootfs example_env example_bundle_plain (initial example_fs))) =
       example_unpacked"
    using t3 h3 u o(5,6) by simp_all
  show ?thesis
    using h1 u o a1 a2 a3 b1 b2 c1 by blast
qed

text \<open>The error that the decoder returns has no part in what \<open>unpackRootfs\<close> does.\<close>

lemma unpackRootfs_ignores_decode_error:
  "unpackRootfs (e\<lparr>json_Unmarshal := \<lambda>d m. (fst (json_Unmarshal e d m), x d m)\<rparr>) b w =
   unpackRootfs e b w"
proof -
  let ?e = "e\<lparr>json_Unmarshal := \<lambda>d m. (fst (json_Unmarshal e d m), x d m)\<rparr>"
  have l: "unpackRootfs_loglevel ?e = unpackRootfs_loglevel e"
    by (simp add: unpackRootfs_loglevel_def)
  have o: "unpackRootfs_mapOptions ?e v = unpackRootfs_mapOptions e v" for v
    by (simp add: unpackRootfs_mapOptions_eq)
  have p: "unpackRootfs_post ?e b v = unpackRootfs_post e b v" for v
    by (simp add: unpackRootfs_post_def)
  have x: "unpackRootfs_extract ?e b mo eng d v = unpackRootfs_extract e b mo eng d v"
    for mo eng d v
    by (simp add: unpackRootfs_extract_def p Let_def split: prod.splits option.splits)
  have f: "unpackRootfs_fetch ?e b mo eng v = unpackRootfs_fetch e b mo eng v" for mo eng v
    by (simp add: unpackRootfs_fetch_def x Let_def split: option.splits sum.splits)
  show ?thesis
    by (simp add: unpackRootfs_def l o f Let_def split: prod.splits sum.splits)
qed

text \<open>
  Whatever the decoder returns, a run whose fetch answers with the OCI image-manifest
  media type goes on to remove the rootfs path and to invoke the unpack capability.
\<close>

lemma decode_error_reaches_extraction:
  assumes "umoci_OpenLayout e (TmpDir b) = Inr eng" "NewImageSource e = None"
    "GetManifest e = Inr (d, MediaTypeImageManifest)"
  shows "Call_RemoveAll (RootfsPath b) \<in> set (calls (snd (unpackRootfs e b (initial f))))"
    and "Call_UnpackRootfs eng (RootfsPath b) (run_manifest e d) (run_mapOptions e)
           \<in> set (calls (snd (unpackRootfs e b (initial f))))"
  unfolding calls_def run_reaches_hist [OF assms] by simp_all

text \<open>
  C1, at a manifest that is not JSON. The registry answers with the single byte \<open>{\<close>
  under the OCI image-manifest media type; the decoder reports the error and leaves the
  zero-valued manifest untouched. \<open>unpackRootfs\<close> does not return a decoding error: it
  removes the rootfs path and invokes the unpack capability on the zero-valued manifest
  with the config media type forced; the unpack of the example succeeding, it returns
  nil.
\<close>

theorem malformed_manifest_is_unpacked:
  "GetManifest example_env_malformed = Inr (''{'', MediaTypeImageManifest) \<and>
   json_Unmarshal example_env_malformed ''{'' zero_Manifest =
     (zero_Manifest, Some (ExtError False False ''unexpected end of JSON input'')) \<and>
   fst (unpackRootfs example_env_malformed example_bundle_plain (initial example_fs)) = None \<and>
   calls (snd (unpackRootfs example_env_malformed example_bundle_plain (initial example_fs))) =
     prelude_calls example_env_malformed example_bundle_plain @
     [Call_Unmarshal ''{'', Call_RemoveAll ''/tmp/build/rootfs'',
      Call_UnpackRootfs (Engine ''/tmp/build/oci'') ''/tmp/build/rootfs''
        (zero_Manifest\<lparr>Config := zero_Descriptor\<lparr>MediaType := MediaTypeImageConfig\<rparr>\<rparr>)
        \<lparr>UIDMappings = [\<lparr>ContainerID = 0, HostID = 1000, m_Size = 1\<rparr>],
         GIDMappings = [\<lparr>ContainerID = 0, HostID = 100, m_Size = 1\<rparr>],
         Rootless = True\<rparr>] \<and>
   w_fs (snd (unpackRootfs example_env_malformed example_bundle_plain (initial example_fs))) =
     example_unpacked"
proof -
  let ?e = example_env_malformed and ?b = example_bundle_plain
  have r: "umoci_OpenLayout ?e (TmpDir ?b) = Inr (Engine ''/tmp/build/oci'')"
    "NewImageSource ?e = None"
    "GetManifest ?e = Inr (''{'', MediaTypeImageManifest)"
    by (simp_all add: example_env_malformed_def example_env_def example_bundle_plain_def
        example_bundle_def)
  have j: "json_Unmarshal ?e ''{'' zero_Manifest =
     (zero_Manifest, Some (ExtError False False ''unexpected end of JSON input''))"
    by (simp add: example_env_malformed_def)
  have m: "run_manifest ?e ''{'' =
      zero_Manifest\<lparr>Config := zero_Descriptor\<lparr>MediaType := MediaTypeImageConfig\<rparr>\<rparr>"
    unfolding run_manifest_def j by (simp add: unpackRootfs_normalize_eq zero_Manifest_def)
  have mo: "run_mapOptions ?e =
      \<lparr>UIDMappings = [\<lparr>ContainerID = 0, HostID = 1000, m_Size = 1\<rparr>],
       GIDMappings = [\<lparr>ContainerID = 0, HostID = 100, m_Size = 1\<rparr>],
       Rootless = True\<rparr>"
    by (simp add: run_mapOptions_eq example_env_malformed_def example_env_def uint32_def)
  have p: "RootfsPath ?b = ''/tmp/build/rootfs''"
    "\<not> FixPerms (Opts ?b)" "\<not> SandboxTarget (Opts ?b)"
    by (simp_all add: example_bundle_plain_def example_bundle_def)
  have u: "umocilayer_UnpackRootfs ?e eng ''/tmp/build/rootfs'' mf mp
     example_removed = (example_unpacked, None)" for eng mf mp
    by (simp add: example_env_malformed_def example_env_def example_unpacked_def)
  have c: "calls (snd (unpackRootfs ?e ?b (initial example_fs))) =
     prelude_calls ?e ?b @
     [Call_Unmarshal ''{'', Call_RemoveAll ''/tmp/build/rootfs'',
      Call_UnpackRootfs (Engine ''/tmp/build/oci'') ''/tmp/build/rootfs''
        (zero_Manifest\<lparr>Config := zero_Descriptor\<lparr>MediaType := MediaTypeImageConfig\<rparr>\<rparr>)
        \<lparr>UIDMappings = [\<lparr>ContainerID = 0, HostID = 1000, m_Size = 1\<rparr>],
         GIDMappings = [\<lparr>ContainerID = 0, HostID = 100, m_Size = 1\<rparr>],
         Rootless = True\<rparr>]"
    unfolding calls_def run_reaches_hist [OF r] p(1) m mo example_removal u
    by (simp add: post_calls_eq p comp_def)
  have "fst (unpackRootfs ?e ?b (initial example_fs)) = None"
    unfolding run_reaches [OF r]
    by (simp add: extract_fst p(1) m mo example_removal u post_fst p)
  moreover have "w_fs (snd (unpackRootfs ?e ?b (initial example_fs))) = example_unpacked"
    unfolding run_reaches [OF r]
    by (simp add: extract_fs p(1) m mo example_removal u post_fs p)
  ultimately show ?thesis
    using r(3) j c by blast
qed

section \<open>The listing of the remotes\<close>

lemma mset_insert_by: "mset (insert_by lt x xs) = add_mset x (mset xs)"
  by (induction xs) simp_all

lemma mset_sort_Slice: "mset (sort_Slice lt xs) = mset xs"
  by (induction xs) (simp_all add: sort_Slice_def mset_insert_by)

lemma sort_Strings_mset: "mset ys = mset xs \<Longrightarrow> sort_Strings ys = sort_Strings xs"
  unfolding sort_Strings_def by (rule properties_for_sort) simp_all

lemma sort_Strings_after_sort_Slice: "sort_Strings (sort_Slice lt xs) = sort_Strings xs"
  by (rule sort_Strings_mset) (rule mset_sort_Slice)

lemma RemoteList_printed:
  "fst (fst (RemoteList e u f)) = None \<Longrightarrow>
   \<exists>c. snd (fst (RemoteList e u f)) =
         RemoteList_header @ map (RemoteList_row c) (RemoteList_names e c)"
  by (auto simp: RemoteList_def split: prod.splits sum.splits if_splits)


lemma OpenFile_creates:
  assumes "f u = None" "f (path_parent u) = Some d" "IsDir (i_mode d)" "i_mode d AND o100 \<noteq> 0"
    "i_mode d AND o200 \<noteq> 0"
  shows "os_OpenFile_RDONLY_CREATE um u perm f =
     (Inr \<lparr>i_mode = perm AND NOT um, i_content = []\<rparr>,
      f(u \<mapsto> \<lparr>i_mode = perm AND NOT um, i_content = []\<rparr>))"
  using assms by (simp add: os_OpenFile_RDONLY_CREATE_def Let_def)

lemma OpenFile_not_exist:
  "(\<exists>err. fst (os_OpenFile_RDONLY_CREATE um u perm f) = Inl err \<and> IsNotExist err) \<longleftrightarrow>
   f (path_parent u) = None"
  by (auto simp: os_OpenFile_RDONLY_CREATE_def ENOENT_def ENOTDIR_def EACCES_def Let_def
      split: option.splits if_splits)

lemma OpenFile_fs:
  "snd (os_OpenFile_RDONLY_CREATE um u perm f) = f \<or>
   snd (os_OpenFile_RDONLY_CREATE um u perm f) =
     f(u \<mapsto> \<lparr>i_mode = perm AND NOT um, i_content = []\<rparr>)"
  by (auto simp: os_OpenFile_RDONLY_CREATE_def Let_def split: option.splits if_splits)

lemma RemoteList_after_open:
  assumes "os_OpenFile_RDONLY_CREATE (umask e) u o600 f = (Inr file, f')"
  shows "RemoteList e u f =
     ((case remote_ReadFrom e file of
         Inl err \<Rightarrow>
           (Some (fmt_Errorf ''while parsing remote config data: %s'' [Error err]), [])
       | Inr c \<Rightarrow>
           (case syncSysConfig e c of
              Inl err \<Rightarrow> (Some (External err), [])
            | Inr c' \<Rightarrow>
                (None, RemoteList_header @ map (RemoteList_row c') (RemoteList_names e c')))),
      f')"
  using assms by (simp add: RemoteList_def split: sum.splits)

lemma RemoteList_no_remote_configurations:
  "fst (fst (RemoteList e u f)) = Some (fmt_Errorf ''no remote configurations'' []) \<longleftrightarrow>
   (\<exists>err. fst (os_OpenFile_RDONLY_CREATE (umask e) u o600 f) = Inl err \<and> IsNotExist err)"
  by (auto simp: RemoteList_def split: prod.splits sum.splits)

lemma example_home_open:
  "example_home ''/home/u/.apptainer/remote.yaml'' = None"
  "example_home (path_parent ''/home/u/.apptainer/remote.yaml'') =
     Some \<lparr>i_mode = 0x800001C0, i_content = []\<rparr>"
  "IsDir (i_mode \<lparr>i_mode = 0x800001C0, i_content = []\<rparr>)"
  "i_mode \<lparr>i_mode = 0x800001C0, i_content = []\<rparr> AND o100 \<noteq> 0"
  "i_mode \<lparr>i_mode = 0x800001C0, i_content = []\<rparr> AND o200 \<noteq> 0"
  by (simp_all add: example_home_def path_parent_def IsDir_def ModeDir_def o100_def o200_def)

lemma example_RemoteList:
  "fst (RemoteList example_rl_env ''/home/u/.apptainer/remote.yaml'' example_home) =
     (None,
      RemoteList_header @
      [Fprintf_tw [''DefaultRemote'', ''cloud.apptainer.org'', ''NO'', ''YES'', ''NO'', ''NO'']])"
proof -
  have "RemoteList_names example_rl_env
          \<lparr>DefaultRemote = [], Remotes = [''DefaultRemote'' \<mapsto> example_system_remote]\<rparr> = [''DefaultRemote'']"
    by (simp add: RemoteList_names_def sort_Strings_def sort_Slice_def example_rl_env_def)
  then show ?thesis
    unfolding RemoteList_after_open [OF OpenFile_creates [OF example_home_open]]
    by (simp add: example_rl_env_def RemoteList_row_def Remotes_at_def YES_NO_def
        example_system_remote_def)
qed

lemma example_range:
  "range_Remotes example_rl_env example_user_config = [''mine'', ''DefaultRemote'', ''Alpha'']"
  by (simp add: example_rl_env_def example_user_config_def)

lemma example_first_sort:
  "sort_Slice (RemoteList_less example_user_config) [''mine'', ''DefaultRemote'', ''Alpha''] =
     [''DefaultRemote'', ''Alpha'', ''mine'']"
  by (simp add: sort_Slice_def RemoteList_less_def Remotes_at_def example_user_config_def
      example_system_remote_def)

text \<open>
  C9. The names are displayed in the order of a single \<^verbatim>\<open>sort.Strings\<close> of the keys:
  sorted in the plain order of strings (strictly, the keys of a map being distinct), a
  rearrangement of the keys, and the same whatever comparison the first sort is given.
  The rows that \<open>RemoteList\<close> prints follow that order.
\<close>

theorem first_sort_is_dead:
  "RemoteList_names e c = names_alphabetical_spec e c \<and>
   sorted (RemoteList_names e c) \<and>
   mset (RemoteList_names e c) = mset (range_Remotes e c) \<and>
   (distinct (range_Remotes e c) \<longrightarrow> sorted_wrt (<) (RemoteList_names e c)) \<and>
   (\<forall>lt. sort_Strings (sort_Slice lt (range_Remotes e c)) = RemoteList_names e c) \<and>
   (fst (fst (RemoteList e u f)) = None \<longrightarrow>
      (\<exists>c'. snd (fst (RemoteList e u f)) =
              RemoteList_header @ map (RemoteList_row c') (names_alphabetical_spec e c')))"
proof -
  have n: "RemoteList_names e c = sort (range_Remotes e c)"
    by (simp add: RemoteList_names_def sort_Strings_after_sort_Slice) (simp add: sort_Strings_def)
  have a: "RemoteList_names e' c' = names_alphabetical_spec e' c'" for e' c'
    by (simp add: RemoteList_names_def names_alphabetical_spec_def sort_Strings_after_sort_Slice)
  have "sorted_wrt (<) (RemoteList_names e c)" if "distinct (range_Remotes e c)"
    using that by (simp add: n strict_sorted_iff)
  moreover have "sort_Strings (sort_Slice lt (range_Remotes e c)) = RemoteList_names e c" for lt
    by (simp add: RemoteList_names_def sort_Strings_after_sort_Slice)
  moreover have "\<exists>c'. snd (fst (RemoteList e u f)) =
              RemoteList_header @ map (RemoteList_row c') (names_alphabetical_spec e c')"
    if "fst (fst (RemoteList e u f)) = None"
    using RemoteList_printed [OF that] by (simp add: a)
  moreover have "sorted (RemoteList_names e c)"
    by (simp add: n)
  moreover have "mset (RemoteList_names e c) = mset (range_Remotes e c)"
    by (simp add: n)
  ultimately show ?thesis
    using a [of e c] by blast
qed

theorem first_sort_is_dead_witness:
  "distinct (range_Remotes example_rl_env example_user_config) \<and>
   sort_Slice (RemoteList_less example_user_config)
     (range_Remotes example_rl_env example_user_config) = [''DefaultRemote'', ''Alpha'', ''mine''] \<and>
   RemoteList_names example_rl_env example_user_config = [''Alpha'', ''DefaultRemote'', ''mine''] \<and>
   sorted_wrt (<) (RemoteList_names example_rl_env example_user_config) \<and>
   fst (fst (RemoteList example_rl_env ''/home/u/.apptainer/remote.yaml'' example_home)) = None \<and>
   (\<exists>c'. snd (fst (RemoteList example_rl_env ''/home/u/.apptainer/remote.yaml'' example_home)) =
           RemoteList_header @
           map (RemoteList_row c') (names_alphabetical_spec example_rl_env c'))"
proof -
  note t = first_sort_is_dead [of example_rl_env example_user_config
      "''/home/u/.apptainer/remote.yaml''" example_home]
  have d: "distinct (range_Remotes example_rl_env example_user_config)"
    by (simp add: example_range)
  have "names_alphabetical_spec example_rl_env example_user_config = [''Alpha'', ''DefaultRemote'', ''mine'']"
    by (simp add: names_alphabetical_spec_def example_range sort_Strings_def)
  then have n: "RemoteList_names example_rl_env example_user_config = [''Alpha'', ''DefaultRemote'', ''mine'']"
    using t by simp
  have r: "fst (fst (RemoteList example_rl_env ''/home/u/.apptainer/remote.yaml'' example_home)) =
      None"
    by (simp add: example_RemoteList)
  have s: "sort_Slice (RemoteList_less example_user_config)
     (range_Remotes example_rl_env example_user_config) = [''DefaultRemote'', ''Alpha'', ''mine'']"
    by (simp add: example_range example_first_sort)
  have "sorted_wrt (<) (RemoteList_names example_rl_env example_user_config)"
    using t d by blast
  moreover have "\<exists>c'. snd (fst (RemoteList example_rl_env ''/home/u/.apptainer/remote.yaml''
                               example_home)) =
           RemoteList_header @
           map (RemoteList_row c') (names_alphabetical_spec example_rl_env c')"
    using t r by blast
  ultimately show ?thesis
    using d n r s by blast
qed

lemma RemoteList_names_eq: "RemoteList_names e c = sort_Strings (range_Remotes e c)"
  by (simp add: RemoteList_names_def sort_Strings_after_sort_Slice)

lemma sort_Strings_Nil: "sort_Strings [] = []"
  by (simp add: sort_Strings_def)

text \<open>
  C10, as stated, at a user whose configuration file is absent and whose configuration
  directory exists and can be written: \<open>RemoteList\<close> creates the file, empty, and goes on;
  but the listing it prints is not empty, since \<^verbatim>\<open>syncSysConfig\<close> has added the system
  remote to the configuration read from the empty file.
\<close>

theorem RemoteList_listing_not_empty:
  "example_home ''/home/u/.apptainer/remote.yaml'' = None \<and>
   example_home (path_parent ''/home/u/.apptainer/remote.yaml'') =
     Some \<lparr>i_mode = 0x800001C0, i_content = []\<rparr> \<and>
   IsDir 0x800001C0 \<and> (0x800001C0 :: FileMode) AND o200 \<noteq> 0 \<and>
   snd (RemoteList example_rl_env ''/home/u/.apptainer/remote.yaml'' example_home)
     ''/home/u/.apptainer/remote.yaml'' = Some \<lparr>i_mode = 0x180, i_content = []\<rparr> \<and>
   fst (RemoteList example_rl_env ''/home/u/.apptainer/remote.yaml'' example_home) =
     (None,
      RemoteList_header @
      [Fprintf_tw [''DefaultRemote'', ''cloud.apptainer.org'', ''NO'', ''YES'', ''NO'', ''NO'']]) \<and>
   snd (fst (RemoteList example_rl_env ''/home/u/.apptainer/remote.yaml'' example_home)) \<noteq>
     RemoteList_header"
proof -
  have "snd (RemoteList example_rl_env ''/home/u/.apptainer/remote.yaml'' example_home)
     ''/home/u/.apptainer/remote.yaml'' = Some \<lparr>i_mode = 0x180, i_content = []\<rparr>"
    unfolding RemoteList_after_open [OF OpenFile_creates [OF example_home_open]]
    by (simp add: example_rl_env_def o600_def)
  then show ?thesis
    using example_home_open by (simp add: example_RemoteList o200_def)
qed

text \<open>
  C10, amended. When the configuration file is absent and its parent directory exists
  and can be searched and written, \<open>RemoteList\<close> creates the file, empty, with mode 0600
  less the umask, and goes on to parse it and to merge the system configuration: a
  failure of either is returned, and otherwise the listing of the merged configuration
  is printed, which is the bare header when that configuration has no remote. The error
  \<^verbatim>\<open>no remote configurations\<close> of \<open>RemoteList\<close> is returned exactly when the open fails
  with a not-exist error, which is when the parent directory is missing.
\<close>

theorem RemoteList_creates_absent_config:
  "(f u = None \<and> f (path_parent u) = Some d \<and> IsDir (i_mode d) \<and> i_mode d AND o100 \<noteq> 0 \<and>
    i_mode d AND o200 \<noteq> 0 \<longrightarrow>
      snd (RemoteList e u f) = f(u \<mapsto> \<lparr>i_mode = o600 AND NOT (umask e), i_content = []\<rparr>) \<and>
      fst (RemoteList e u f) =
        (case remote_ReadFrom e \<lparr>i_mode = o600 AND NOT (umask e), i_content = []\<rparr> of
           Inl err \<Rightarrow>
             (Some (fmt_Errorf ''while parsing remote config data: %s'' [Error err]), [])
         | Inr c \<Rightarrow>
             (case syncSysConfig e c of
                Inl err \<Rightarrow> (Some (External err), [])
              | Inr c' \<Rightarrow>
                  (None,
                   RemoteList_header @
                   map (RemoteList_row c') (sort_Strings (range_Remotes e c'))))) \<and>
      (\<forall>c c'. remote_ReadFrom e \<lparr>i_mode = o600 AND NOT (umask e), i_content = []\<rparr> = Inr c \<and>
              syncSysConfig e c = Inr c' \<and> range_Remotes e c' = [] \<longrightarrow>
              fst (RemoteList e u f) = (None, RemoteList_header))) \<and>
   (fst (fst (RemoteList e u f)) = Some (fmt_Errorf ''no remote configurations'' []) \<longleftrightarrow>
      (\<exists>err. fst (os_OpenFile_RDONLY_CREATE (umask e) u o600 f) = Inl err \<and> IsNotExist err)) \<and>
   ((\<exists>err. fst (os_OpenFile_RDONLY_CREATE (umask e) u o600 f) = Inl err \<and> IsNotExist err) \<longleftrightarrow>
      f (path_parent u) = None)"
proof -
  have created: "snd (RemoteList e u f) =
        f(u \<mapsto> \<lparr>i_mode = o600 AND NOT (umask e), i_content = []\<rparr>) \<and>
      fst (RemoteList e u f) =
        (case remote_ReadFrom e \<lparr>i_mode = o600 AND NOT (umask e), i_content = []\<rparr> of
           Inl err \<Rightarrow>
             (Some (fmt_Errorf ''while parsing remote config data: %s'' [Error err]), [])
         | Inr c \<Rightarrow>
             (case syncSysConfig e c of
                Inl err \<Rightarrow> (Some (External err), [])
              | Inr c' \<Rightarrow>
                  (None,
                   RemoteList_header @
                   map (RemoteList_row c') (sort_Strings (range_Remotes e c'))))) \<and>
      (\<forall>c c'. remote_ReadFrom e \<lparr>i_mode = o600 AND NOT (umask e), i_content = []\<rparr> = Inr c \<and>
              syncSysConfig e c = Inr c' \<and> range_Remotes e c' = [] \<longrightarrow>
              fst (RemoteList e u f) = (None, RemoteList_header))"
    if "f u = None" "f (path_parent u) = Some d" "IsDir (i_mode d)" "i_mode d AND o100 \<noteq> 0"
      "i_mode d AND o200 \<noteq> 0"
    unfolding RemoteList_after_open [OF OpenFile_creates [OF that]]
    by (auto simp: RemoteList_names_eq sort_Strings_Nil split: sum.splits)
  show ?thesis
    using created RemoteList_no_remote_configurations [of e u f]
      OpenFile_not_exist [of "umask e" u o600 f]
    by blast
qed

theorem RemoteList_creates_absent_config_witness:
  "example_home ''/home/u/.apptainer/remote.yaml'' = None \<and>
   example_home (path_parent ''/home/u/.apptainer/remote.yaml'') =
     Some \<lparr>i_mode = 0x800001C0, i_content = []\<rparr> \<and>
   IsDir (i_mode \<lparr>i_mode = 0x800001C0, i_content = []\<rparr>) \<and>
   i_mode \<lparr>i_mode = 0x800001C0, i_content = []\<rparr> AND o100 \<noteq> 0 \<and>
   i_mode \<lparr>i_mode = 0x800001C0, i_content = []\<rparr> AND o200 \<noteq> 0 \<and>
   snd (RemoteList example_rl_env_nosys ''/home/u/.apptainer/remote.yaml'' example_home) =
     example_home(''/home/u/.apptainer/remote.yaml'' \<mapsto> \<lparr>i_mode = 0x180, i_content = []\<rparr>) \<and>
   remote_ReadFrom example_rl_env_nosys \<lparr>i_mode = 0x180, i_content = []\<rparr> =
     Inr \<lparr>DefaultRemote = [], Remotes = Map.empty\<rparr> \<and>
   syncSysConfig example_rl_env_nosys \<lparr>DefaultRemote = [], Remotes = Map.empty\<rparr> =
     Inr \<lparr>DefaultRemote = [], Remotes = Map.empty\<rparr> \<and>
   range_Remotes example_rl_env_nosys \<lparr>DefaultRemote = [], Remotes = Map.empty\<rparr> = [] \<and>
   fst (RemoteList example_rl_env_nosys ''/home/u/.apptainer/remote.yaml'' example_home) =
     (None, RemoteList_header) \<and>
   Map.empty (path_parent ''/home/u/.apptainer/remote.yaml'') = (None :: inode option) \<and>
   fst (fst (RemoteList example_rl_env_nosys ''/home/u/.apptainer/remote.yaml'' Map.empty)) =
     Some (fmt_Errorf ''no remote configurations'' [])"
proof -
  let ?u = "''/home/u/.apptainer/remote.yaml''"
  let ?c = "\<lparr>DefaultRemote = [], Remotes = Map.empty\<rparr>"
  have m: "o600 AND NOT (umask example_rl_env_nosys) = 0x180"
    by (simp add: example_rl_env_nosys_def example_rl_env_def o600_def)
  have r: "remote_ReadFrom example_rl_env_nosys \<lparr>i_mode = 0x180, i_content = []\<rparr> = Inr ?c"
    "syncSysConfig example_rl_env_nosys ?c = Inr ?c"
    "range_Remotes example_rl_env_nosys ?c = []"
    by (simp_all add: example_rl_env_nosys_def example_rl_env_def)
  note t = RemoteList_creates_absent_config [of example_home ?u
      "\<lparr>i_mode = 0x800001C0, i_content = []\<rparr>" example_rl_env_nosys, unfolded m]
  have a: "snd (RemoteList example_rl_env_nosys ?u example_home) =
     example_home(?u \<mapsto> \<lparr>i_mode = 0x180, i_content = []\<rparr>)"
    using t example_home_open by blast
  have b: "fst (RemoteList example_rl_env_nosys ?u example_home) = (None, RemoteList_header)"
    using t example_home_open r by blast
  note t' = RemoteList_creates_absent_config [of Map.empty ?u _ example_rl_env_nosys]
  have c: "fst (fst (RemoteList example_rl_env_nosys ?u Map.empty)) =
     Some (fmt_Errorf ''no remote configurations'' [])"
    using t' by simp
  show ?thesis
    using example_home_open a b c r by simp
qed

end
